theory Spec2Isabelle
  imports Complex_Main "HOL-Library.AList"
begin

section \<open>JavaScript strings\<close>

text \<open>
  JavaScript strings are modelled as \<^typ>\<open>string\<close>; a character stands for one code unit
  in the range 0..255. The three string methods the program calls are given here:
  \<open>s.startsWith(p)\<close>, \<open>s.endsWith(p)\<close> and \<open>s.includes(p)\<close>.
\<close>

fun startsWith :: "string \<Rightarrow> string \<Rightarrow> bool" where
  "startsWith s [] = True"
| "startsWith [] (p # ps) = False"
| "startsWith (c # s) (p # ps) = (c = p \<and> startsWith s ps)"

definition endsWith :: "string \<Rightarrow> string \<Rightarrow> bool" where
  "endsWith s suffix = startsWith (rev s) (rev suffix)"

primrec "includes" :: "string \<Rightarrow> string \<Rightarrow> bool" where
  "includes [] pat = startsWith [] pat"
| "includes (c # s) pat = (startsWith (c # s) pat \<or> includes s pat)"

text \<open>The number of positions of \<open>s\<close> at which \<open>pat\<close> occurs.\<close>

primrec occurrences :: "string \<Rightarrow> string \<Rightarrow> nat" where
  "occurrences pat [] = (if startsWith [] pat then 1 else 0)"
| "occurrences pat (c # s) = (if startsWith (c # s) pat then 1 else 0) + occurrences pat s"

section \<open>Flags\<close>

text \<open>
  \<open>export type Flags\<close> of \<open>App.tsx\<close>: every field is optional, \<open>None\<close> is
  \<open>undefined\<close>. \<open>type\<close> and \<open>align\<close> are strings at run time (the command line
  passes whatever the user typed).
\<close>

record Flags =
  "output" :: "string option"
  type :: "string option"
  toc :: "bool option"
  rtl :: "bool option"
  align :: "string option"
  style :: "string option"
  "open" :: "bool option"
  watch :: "bool option"
  verbose :: "bool option"
  compact :: "bool option"

text \<open>Truthiness of an optional boolean and of an optional string field.\<close>

definition truthy_bool :: "bool option \<Rightarrow> bool" where
  "truthy_bool b = (b = Some True)"

definition truthy_str :: "string option \<Rightarrow> bool" where
  "truthy_str s = (case s of None \<Rightarrow> False | Some x \<Rightarrow> x \<noteq> [])"

text \<open>The flags value in which nothing is set.\<close>

definition noFlags :: Flags where
  "noFlags = \<lparr>output = None, type = None, toc = None, rtl = None, align = None,
     style = None, open = None, watch = None, verbose = None, compact = None\<rparr>"

section \<open>Table-of-contents marker\<close>

definition NL :: char where
  "NL = CHR 0x0A"

text \<open>
  \<open>const effectiveMarkdown = flags.toc && !markdown.includes("[TOC]")
       ? `\n[TOC]\n\n${markdown}` : markdown;\<close>
\<close>

definition tocPrefix :: string where
  "tocPrefix = NL # ''[TOC]'' @ [NL, NL]"

definition effectiveMarkdown :: "Flags \<Rightarrow> string \<Rightarrow> string" where
  "effectiveMarkdown flags markdown =
     (if truthy_bool (toc flags) \<and> \<not> includes markdown ''[TOC]''
      then tocPrefix @ markdown else markdown)"

section \<open>JavaScript values\<close>

text \<open>
  The values a parsed JSON file or a flag can hold. A number is \<open>NaN\<close>, an infinity or
  finite; a finite number is represented by the rational it denotes (rounding to the
  nearest double is not modelled, only the overflow to an infinity is). An object is the
  list of its own properties in property order.
\<close>

datatype jsnum = Finite rat | PosInfinity | NegInfinity | NaN

datatype jsval = JUndefined | JNull | JBool bool | JNum jsnum | JStr string
  | JArr "jsval list" | JObj "(string \<times> jsval) list"

type_synonym jsobject = "(string \<times> jsval) list"

fun typeof :: "jsval \<Rightarrow> string" where
  "typeof JUndefined = ''undefined''"
| "typeof JNull = ''object''"
| "typeof (JBool b) = ''boolean''"
| "typeof (JNum n) = ''number''"
| "typeof (JStr s) = ''string''"
| "typeof (JArr xs) = ''object''"
| "typeof (JObj kvs) = ''object''"

text \<open>\<open>Boolean(v)\<close>: the truthiness of a value.\<close>

fun Boolean :: "jsval \<Rightarrow> bool" where
  "Boolean JUndefined = False"
| "Boolean JNull = False"
| "Boolean (JBool b) = b"
| "Boolean (JNum n) = (n \<noteq> NaN \<and> n \<noteq> Finite 0)"
| "Boolean (JStr s) = (s \<noteq> [])"
| "Boolean (JArr xs) = True"
| "Boolean (JObj kvs) = True"

text \<open>\<open>Number.isFinite(v)\<close>: true for finite numbers only, with no coercion.\<close>

fun Number_isFinite :: "jsval \<Rightarrow> bool" where
  "Number_isFinite (JNum (Finite q)) = True"
| "Number_isFinite v = False"

subsection \<open>String to number\<close>

text \<open>
  \<open>Number(s)\<close> on a string, after the StringToNumber grammar of ECMAScript: white space
  is trimmed, the empty string is 0, then a non-decimal integer literal (\<open>0x\<close>,
  \<open>0o\<close>, \<open>0b\<close>), or an optionally signed \<open>Infinity\<close> or decimal literal with
  optional fraction and exponent; anything else is \<open>NaN\<close>. White space is the part of
  the ECMAScript WhiteSpace and LineTerminator code points that lies below 256.
\<close>

definition isWhiteSpace :: "char \<Rightarrow> bool" where
  "isWhiteSpace c = (of_char c \<in> set [9, 10, 11, 12, 13, 32, 160 :: nat])"

definition trim :: "string \<Rightarrow> string" where
  "trim s = rev (dropWhile isWhiteSpace (rev (dropWhile isWhiteSpace s)))"

definition digitValue :: "char \<Rightarrow> nat option" where
  "digitValue c =
     (let n = of_char c :: nat in
      if 48 \<le> n \<and> n \<le> 57 then Some (n - 48)
      else if 97 \<le> n \<and> n \<le> 102 then Some (n - 87)
      else if 65 \<le> n \<and> n \<le> 70 then Some (n - 55)
      else None)"

fun digitsFrom :: "nat \<Rightarrow> nat \<Rightarrow> string \<Rightarrow> nat option" where
  "digitsFrom base acc [] = Some acc"
| "digitsFrom base acc (c # cs) =
     (case digitValue c of
        None \<Rightarrow> None
      | Some d \<Rightarrow> if d < base then digitsFrom base (acc * base + d) cs else None)"

definition digits :: "nat \<Rightarrow> string \<Rightarrow> nat option" where
  "digits base s = (if s = [] then None else digitsFrom base 0 s)"

definition optDigits :: "string \<Rightarrow> nat option" where
  "optDigits s = (if s = [] then Some 0 else digits 10 s)"

definition signedInteger :: "string \<Rightarrow> int option" where
  "signedInteger s =
     (case s of
        c # r \<Rightarrow>
          if c = CHR ''+'' then map_option int (digits 10 r)
          else if c = CHR ''-'' then map_option (\<lambda>n. - int n) (digits 10 r)
          else map_option int (digits 10 s)
      | [] \<Rightarrow> None)"

definition exponentPart :: "string \<Rightarrow> int option" where
  "exponentPart s = (case s of [] \<Rightarrow> Some 0 | _ # r \<Rightarrow> signedInteger r)"

definition pow10 :: "int \<Rightarrow> rat" where
  "pow10 e = (if 0 \<le> e then 10 ^ nat e else 1 / 10 ^ nat (- e))"

definition isExponentIndicator :: "char \<Rightarrow> bool" where
  "isExponentIndicator c = (c = CHR ''e'' \<or> c = CHR ''E'')"

definition decimalLiteral :: "string \<Rightarrow> rat option" where
  "decimalLiteral s =
     (let mant = takeWhile (\<lambda>c. \<not> isExponentIndicator c) s;
          expo = dropWhile (\<lambda>c. \<not> isExponentIndicator c) s;
          ip = takeWhile (\<lambda>c. c \<noteq> CHR ''.'') mant;
          fp = drop 1 (dropWhile (\<lambda>c. c \<noteq> CHR ''.'') mant)
      in if ip = [] \<and> fp = [] then None
         else (case (optDigits ip, optDigits fp, exponentPart expo) of
                 (Some i, Some f, Some e) \<Rightarrow>
                   Some ((of_nat i + of_nat f / 10 ^ length fp) * pow10 e)
               | _ \<Rightarrow> None))"

definition roundToDouble :: "rat \<Rightarrow> jsnum" where
  "roundToDouble v =
     (if 2 ^ 1024 - 2 ^ 970 \<le> v then PosInfinity
      else if v \<le> - (2 ^ 1024 - 2 ^ 970) then NegInfinity
      else Finite v)"

definition unsignedDecimal :: "string \<Rightarrow> jsnum option" where
  "unsignedDecimal s =
     (if s = ''Infinity'' then Some PosInfinity
      else map_option roundToDouble (decimalLiteral s))"

fun negate :: "jsnum \<Rightarrow> jsnum" where
  "negate (Finite v) = Finite (- v)"
| "negate PosInfinity = NegInfinity"
| "negate NegInfinity = PosInfinity"
| "negate NaN = NaN"

definition strDecimalLiteral :: "string \<Rightarrow> jsnum option" where
  "strDecimalLiteral s =
     (case s of
        c # r \<Rightarrow>
          if c = CHR ''+'' then unsignedDecimal r
          else if c = CHR ''-'' then map_option negate (unsignedDecimal r)
          else unsignedDecimal s
      | [] \<Rightarrow> None)"

definition integerValue :: "nat \<Rightarrow> jsnum" where
  "integerValue n = roundToDouble (of_nat n)"

definition nonDecimalLiteral :: "string \<Rightarrow> jsnum option option" where
  "nonDecimalLiteral s =
     (case s of
        z # p # r \<Rightarrow>
          if z \<noteq> CHR ''0'' then None
          else if p = CHR ''x'' \<or> p = CHR ''X'' then Some (map_option integerValue (digits 16 r))
          else if p = CHR ''o'' \<or> p = CHR ''O'' then Some (map_option integerValue (digits 8 r))
          else if p = CHR ''b'' \<or> p = CHR ''B'' then Some (map_option integerValue (digits 2 r))
          else None
      | _ \<Rightarrow> None)"

definition StringToNumber :: "string \<Rightarrow> jsnum" where
  "StringToNumber s =
     (let t = trim s in
      if t = [] then Finite 0
      else (case nonDecimalLiteral t of
              Some r \<Rightarrow> (case r of Some n \<Rightarrow> n | None \<Rightarrow> NaN)
            | None \<Rightarrow> (case strDecimalLiteral t of Some n \<Rightarrow> n | None \<Rightarrow> NaN)))"

section \<open>Objects\<close>

text \<open>
  Setting a property keeps the position of a key the object already has and appends a new
  key; \<open>Object.fromEntries\<close> sets the entries one after the other on an empty object,
  and a spread \<open>{...a, ...b}\<close> sets the own enumerable properties of \<open>b\<close> on a copy of
  \<open>a\<close>. \<open>Object.entries\<close> of an object is its property list. (JavaScript lists
  integer-like keys before the others; the model keeps insertion order throughout, and no
  style key is integer-like.)
\<close>

definition setAll :: "jsobject \<Rightarrow> (string \<times> jsval) list \<Rightarrow> jsobject" where
  "setAll obj es = foldl (\<lambda>acc (k, v). AList.update k v acc) obj es"

definition fromEntries :: "(string \<times> jsval) list \<Rightarrow> jsobject" where
  "fromEntries es = setAll [] es"

definition getProp :: "jsobject \<Rightarrow> string \<Rightarrow> jsval option" where
  "getProp obj k = map_of obj k"

definition digitChar :: "nat \<Rightarrow> char" where
  "digitChar d = char_of (48 + d)"

fun showNat :: "nat \<Rightarrow> string" where
  "showNat n = (if n < 10 then [digitChar n] else showNat (n div 10) @ [digitChar (n mod 10)])"

text \<open>The own enumerable properties a spread copies: of an object, an array, a string.\<close>

fun ownEntries :: "jsval \<Rightarrow> (string \<times> jsval) list" where
  "ownEntries (JObj kvs) = kvs"
| "ownEntries (JArr xs) = zip (map showNat [0..<length xs]) xs"
| "ownEntries (JStr s) = zip (map showNat [0..<length s]) (map (\<lambda>c. JStr [c]) s)"
| "ownEntries v = []"

definition spread :: "jsobject \<Rightarrow> jsval \<Rightarrow> jsobject" where
  "spread obj src = setAll obj (ownEntries src)"

text \<open>\<open>v?.[k]\<close> for a key that no prototype defines (here \<open>style\<close>, \<open>documentType\<close>).\<close>

fun optionalGet :: "jsval \<Rightarrow> string \<Rightarrow> jsval" where
  "optionalGet (JObj kvs) k = (case map_of kvs k of Some v \<Rightarrow> v | None \<Rightarrow> JUndefined)"
| "optionalGet v k = JUndefined"

section \<open>Style sanitizer\<close>

text \<open>The whitelist of style keys by expected type (\<open>convert\<close> in \<open>App.tsx\<close>).\<close>

definition numericStyleKeys :: "string set" where
  "numericStyleKeys = set [''titleSize'', ''headingSpacing'', ''paragraphSpacing'',
     ''lineSpacing'', ''heading1Size'', ''heading2Size'', ''heading3Size'', ''heading4Size'',
     ''heading5Size'', ''paragraphSize'', ''listItemSize'', ''codeBlockSize'',
     ''blockquoteSize'', ''tocFontSize'', ''tocHeading1FontSize'', ''tocHeading2FontSize'',
     ''tocHeading3FontSize'', ''tocHeading4FontSize'', ''tocHeading5FontSize'']"

definition booleanStyleKeys :: "string set" where
  "booleanStyleKeys = set [''tocHeading1Bold'', ''tocHeading2Bold'', ''tocHeading3Bold'',
     ''tocHeading4Bold'', ''tocHeading5Bold'', ''tocHeading1Italic'', ''tocHeading2Italic'',
     ''tocHeading3Italic'', ''tocHeading4Italic'', ''tocHeading5Italic'']"

definition stringStyleKeys :: "string set" where
  "stringStyleKeys = set [''paragraphAlignment'', ''headingAlignment'', ''heading1Alignment'',
     ''heading2Alignment'', ''heading3Alignment'', ''heading4Alignment'',
     ''heading5Alignment'', ''blockquoteAlignment'', ''direction'']"

text \<open>\<open>const num = typeof value === "string" ? Number(value) : (value as number)\<close>\<close>

definition num :: "jsval \<Rightarrow> jsval" where
  "num v = (case v of JStr s \<Rightarrow> JNum (StringToNumber s) | _ \<Rightarrow> v)"

text \<open>The callback of the \<open>filter\<close> that yields \<open>sanitizedStyleEntries\<close>.\<close>

fun keepEntry :: "string \<times> jsval \<Rightarrow> bool" where
  "keepEntry (key, v) =
     (if key \<in> numericStyleKeys then Number_isFinite (num v)
      else if key \<in> booleanStyleKeys then typeof v = ''boolean''
      else if key \<in> stringStyleKeys then
        typeof v = ''string'' \<and> (case v of JStr s \<Rightarrow> 0 < length s | _ \<Rightarrow> False)
      else False)"

definition sanitizedStyleEntries :: "jsobject \<Rightarrow> (string \<times> jsval) list" where
  "sanitizedStyleEntries mergedRaw = filter keepEntry mergedRaw"

text \<open>The callback of the \<open>map\<close> inside \<open>Object.fromEntries\<close>.\<close>

fun coerceEntry :: "string \<times> jsval \<Rightarrow> string \<times> jsval" where
  "coerceEntry (key, v) = (if key \<in> numericStyleKeys then (key, num v) else (key, v))"

definition sanitizedStyle :: "jsobject \<Rightarrow> jsobject" where
  "sanitizedStyle mergedRaw = fromEntries (map coerceEntry (sanitizedStyleEntries mergedRaw))"

subsection \<open>Example style objects\<close>

definition exampleStyle :: jsobject where
  "exampleStyle = [(''titleSize'', JStr ''24''), (''lineSpacing'', JStr ''abc''),
     (''paragraphSize'', JStr ''  ''), (''tocHeading1Bold'', JStr ''true''),
     (''tocHeading2Bold'', JBool True), (''direction'', JStr ''RTL''),
     (''margin'', JNum (Finite 1))]"

definition blankStyle :: jsobject where
  "blankStyle = [(''titleSize'', JStr []), (''lineSpacing'', JStr [CHR 0x20, CHR 0x09])]"

section \<open>Paths\<close>

text \<open>
  \<open>path.parse\<close>, \<open>path.join\<close> and \<open>path.sep\<close> of Node.js, in their POSIX flavour
  (the separator is \<open>/\<close>). \<open>parse\<close> follows the right-to-left scan of the library:
  \<open>endIdx\<close> is its variable \<open>end\<close>, and \<open>-1\<close> stands for "not found yet".
\<close>

definition sep :: string where
  "sep = ''/''"

definition slice :: "string \<Rightarrow> nat \<Rightarrow> nat \<Rightarrow> string" where
  "slice s a b = take (b - a) (drop a s)"

record ParseScan =
  startDot :: int
  startPart :: nat
  endIdx :: int
  matchedSlash :: bool
  preDotState :: int

record ParsedPath =
  root :: string
  dir :: string
  base :: string
  ext :: string
  name :: string

text \<open>
  The loop \<open>for (i = path.length - 1; i >= start; --i)\<close>; the third argument is
  \<open>i + 1\<close>. Leaving through \<open>break\<close> sets \<open>startPart\<close>.
\<close>

fun parseScan :: "string \<Rightarrow> nat \<Rightarrow> nat \<Rightarrow> ParseScan \<Rightarrow> ParseScan" where
  "parseScan p start 0 st = st"
| "parseScan p start (Suc i) st =
     (if i < start then st
      else if p ! i = CHR ''/'' then
        (if \<not> matchedSlash st then st\<lparr>startPart := i + 1\<rparr>
         else parseScan p start i st)
      else
        (let st1 = (if endIdx st = - 1 then st\<lparr>endIdx := int i + 1, matchedSlash := False\<rparr>
                    else st);
             st2 = (if p ! i = CHR ''.'' then
                      (if startDot st1 = - 1 then st1\<lparr>startDot := int i\<rparr>
                       else if preDotState st1 \<noteq> 1 then st1\<lparr>preDotState := 1\<rparr>
                       else st1)
                    else if startDot st1 \<noteq> - 1 then st1\<lparr>preDotState := - 1\<rparr>
                    else st1)
         in parseScan p start i st2))"

definition parse :: "string \<Rightarrow> ParsedPath" where
  "parse p =
     (if p = [] then \<lparr>root = [], dir = [], base = [], ext = [], name = []\<rparr>
      else
        (let isAbsolute = (hd p = CHR ''/'');
             start = (if isAbsolute then 1 else 0);
             st = parseScan p start (length p)
                    \<lparr>startDot = - 1, startPart = 0, endIdx = - 1, matchedSlash = True,
                     preDotState = 0\<rparr>;
             e = nat (endIdx st);
             b = (if startPart st = 0 \<and> isAbsolute then 1 else startPart st);
             noExt = (startDot st = - 1 \<or> preDotState st = 0
                      \<or> (preDotState st = 1 \<and> startDot st = endIdx st - 1
                          \<and> startDot st = int (startPart st) + 1));
             r0 = \<lparr>root = (if isAbsolute then ''/'' else []), dir = [], base = [], ext = [],
                    name = []\<rparr>;
             r1 = (if endIdx st = - 1 then r0
                   else if noExt then r0\<lparr>base := slice p b e, name := slice p b e\<rparr>
                   else r0\<lparr>name := slice p b (nat (startDot st)), base := slice p b e,
                           ext := slice p (nat (startDot st)) e\<rparr>)
         in if 0 < startPart st then r1\<lparr>dir := slice p 0 (startPart st - 1)\<rparr>
            else if isAbsolute then r1\<lparr>dir := ''/''\<rparr>
            else r1))"

text \<open>
  \<open>normalize\<close> works on the segments between separators: empty segments and \<open>.\<close> are
  skipped, \<open>..\<close> removes the segment before it, or is kept when there is none to remove
  and the path is relative. The segments are collected in reverse.
\<close>

fun splitOn :: "char \<Rightarrow> string \<Rightarrow> string list" where
  "splitOn c [] = [[]]"
| "splitOn c (x # xs) =
     (if x = c then [] # splitOn c xs
      else (case splitOn c xs of s # ss \<Rightarrow> (x # s) # ss | [] \<Rightarrow> [[x]]))"

fun normalizeSegments :: "bool \<Rightarrow> string list \<Rightarrow> string list \<Rightarrow> string list" where
  "normalizeSegments allowAboveRoot res [] = res"
| "normalizeSegments allowAboveRoot res (s # ss) =
     (if s = [] \<or> s = ''.'' then normalizeSegments allowAboveRoot res ss
      else if s = ''..'' then
        (case res of
           r # rs \<Rightarrow>
             if r \<noteq> ''..'' then normalizeSegments allowAboveRoot rs ss
             else if allowAboveRoot then normalizeSegments allowAboveRoot (''..'' # res) ss
             else normalizeSegments allowAboveRoot res ss
         | [] \<Rightarrow>
             if allowAboveRoot then normalizeSegments allowAboveRoot [''..''] ss
             else normalizeSegments allowAboveRoot [] ss)
      else normalizeSegments allowAboveRoot (s # res) ss)"

fun joinWith :: "string \<Rightarrow> string list \<Rightarrow> string" where
  "joinWith d [] = []"
| "joinWith d [s] = s"
| "joinWith d (s # t # ss) = s @ d @ joinWith d (t # ss)"

definition normalizeString :: "string \<Rightarrow> bool \<Rightarrow> string" where
  "normalizeString p allowAboveRoot =
     joinWith ''/'' (rev (normalizeSegments allowAboveRoot [] (splitOn (CHR ''/'') p)))"

definition normalize :: "string \<Rightarrow> string" where
  "normalize p =
     (if p = [] then ''.''
      else
        (let isAbsolute = (hd p = CHR ''/'');
             trailingSeparator = (last p = CHR ''/'');
             q = normalizeString p (\<not> isAbsolute)
         in if q = [] then
              (if isAbsolute then ''/'' else if trailingSeparator then ''./'' else ''.'')
            else
              (let q' = (if trailingSeparator then q @ ''/'' else q)
               in if isAbsolute then ''/'' @ q' else q')))"

definition join :: "string list \<Rightarrow> string" where
  "join args =
     (let parts = filter (\<lambda>a. a \<noteq> []) args
      in if parts = [] then ''.'' else normalize (joinWith ''/'' parts))"

section \<open>Output path\<close>

text \<open>\<open>resolveOutputPath\<close> of \<open>App.tsx\<close>; \<open>!desired\<close> holds for a missing and for an empty string.\<close>

definition resolveOutputPath :: "string \<Rightarrow> string option \<Rightarrow> string" where
  "resolveOutputPath inPath desired =
     (case desired of
        None \<Rightarrow> join [dir (parse inPath), name (parse inPath) @ ''.docx'']
      | Some d \<Rightarrow>
          if d = [] then join [dir (parse inPath), name (parse inPath) @ ''.docx'']
          else if endsWith d sep then join [d, name (parse inPath) @ ''.docx'']
          else d)"

section \<open>Command line\<close>

text \<open>
  What the user typed: each flag of \<open>cli.tsx\<close> is present or not, \<open>arg_input\<close> are the
  positional arguments. \<open>cliFlags\<close> is \<open>cli.flags\<close>: the \<open>meow\<close> declaration gives
  \<open>type\<close> the default \<open>"document"\<close> and every boolean flag the default \<open>false\<close>;
  \<open>output\<close>, \<open>align\<close> and \<open>style\<close> have no default.
\<close>

record CliArgs =
  arg_input :: "string list"
  arg_output :: "string option"
  arg_type :: "string option"
  arg_toc :: "bool option"
  arg_rtl :: "bool option"
  arg_align :: "string option"
  arg_style :: "string option"
  arg_open :: "bool option"
  arg_watch :: "bool option"
  arg_verbose :: "bool option"
  arg_interactive :: "bool option"
  arg_compact :: "bool option"

definition withDefault :: "'a \<Rightarrow> 'a option \<Rightarrow> 'a option" where
  "withDefault d x = (case x of None \<Rightarrow> Some d | Some v \<Rightarrow> Some v)"

definition cliFlags :: "CliArgs \<Rightarrow> Flags" where
  "cliFlags a =
     \<lparr>output = arg_output a,
      type = withDefault ''document'' (arg_type a),
      toc = withDefault False (arg_toc a),
      rtl = withDefault False (arg_rtl a),
      align = arg_align a,
      style = arg_style a,
      open = withDefault False (arg_open a),
      watch = withDefault False (arg_watch a),
      verbose = withDefault False (arg_verbose a),
      compact = withDefault False (arg_compact a)\<rparr>"

definition shouldUseWizard :: "CliArgs \<Rightarrow> bool" where
  "shouldUseWizard a =
     (truthy_bool (withDefault False (arg_interactive a))
      \<or> (case arg_input a of [] \<Rightarrow> True | p # _ \<Rightarrow> p = []))"

text \<open>The command line that names an input file and nothing else.\<close>

definition onlyInput :: "string \<Rightarrow> CliArgs" where
  "onlyInput p =
     \<lparr>arg_input = [p], arg_output = None, arg_type = None, arg_toc = None, arg_rtl = None,
      arg_align = None, arg_style = None, arg_open = None, arg_watch = None,
      arg_verbose = None, arg_interactive = None, arg_compact = None\<rparr>"

section \<open>Conversion options\<close>

text \<open>\<open>Options\<close> of the converter: the document type and, optionally, the style.\<close>

record Options =
  documentType :: jsval
  optStyle :: "jsobject option"

text \<open>\<open>a ?? b\<close>: \<open>b\<close> when \<open>a\<close> is \<open>null\<close> or \<open>undefined\<close>.\<close>

definition nullish :: "jsval \<Rightarrow> jsval \<Rightarrow> jsval" where
  "nullish a b = (if a = JUndefined \<or> a = JNull then b else a)"

definition flagValue :: "string option \<Rightarrow> jsval" where
  "flagValue f = (case f of None \<Rightarrow> JUndefined | Some s \<Rightarrow> JStr s)"

text \<open>
  \<open>const userWantsCustomStyle = Boolean(rc?.style) || Boolean(styleFromFile)
      || Boolean(flags.align) || Boolean(flags.rtl)\<close>
\<close>

definition userWantsCustomStyle :: "Flags \<Rightarrow> jsval \<Rightarrow> jsval \<Rightarrow> bool" where
  "userWantsCustomStyle flags rc styleFromFile =
     (Boolean (optionalGet rc ''style'') \<or> Boolean styleFromFile
      \<or> truthy_str (align flags) \<or> truthy_bool (rtl flags))"

definition defaultNumericStyle :: "bool \<Rightarrow> jsobject" where
  "defaultNumericStyle custom =
     (if custom then
        [(''titleSize'', JNum (Finite 32)), (''headingSpacing'', JNum (Finite 240)),
         (''paragraphSpacing'', JNum (Finite 240)), (''lineSpacing'', JNum (Finite (115 / 100))),
         (''heading1Size'', JNum (Finite 32)), (''heading2Size'', JNum (Finite 28)),
         (''heading3Size'', JNum (Finite 24)), (''heading4Size'', JNum (Finite 20)),
         (''heading5Size'', JNum (Finite 18)), (''paragraphSize'', JNum (Finite 24)),
         (''listItemSize'', JNum (Finite 24)), (''codeBlockSize'', JNum (Finite 20)),
         (''blockquoteSize'', JNum (Finite 24)), (''tocFontSize'', JNum (Finite 22))]
      else [])"

text \<open>\<open>x || {}\<close>\<close>

definition orEmpty :: "jsval \<Rightarrow> jsval" where
  "orEmpty v = (if Boolean v then v else JObj [])"

definition mergedRaw :: "Flags \<Rightarrow> jsval \<Rightarrow> jsval \<Rightarrow> jsobject" where
  "mergedRaw flags rc styleFromFile =
     spread
       (spread
          (spread
             (spread (defaultNumericStyle (userWantsCustomStyle flags rc styleFromFile))
                (orEmpty (optionalGet rc ''style'')))
             (orEmpty styleFromFile))
          (case align flags of
             None \<Rightarrow> JObj []
           | Some a \<Rightarrow> if a = [] then JObj [] else JObj [(''paragraphAlignment'', JStr a)]))
       (if truthy_bool (rtl flags) then JObj [(''direction'', JStr ''RTL'')] else JObj [])"

definition options :: "Flags \<Rightarrow> jsval \<Rightarrow> jsval \<Rightarrow> Options" where
  "options flags rc styleFromFile =
     \<lparr>documentType =
        nullish (nullish (flagValue (type flags)) (optionalGet rc ''documentType''))
          (JStr ''document''),
      optStyle =
        (if userWantsCustomStyle flags rc styleFromFile
            \<and> sanitizedStyle (mergedRaw flags rc styleFromFile) \<noteq> []
         then Some (sanitizedStyle (mergedRaw flags rc styleFromFile)) else None)\<rparr>"

section \<open>Conversion pipeline\<close>

text \<open>
  The file system maps a path to what \<open>stat\<close> finds there. \<open>World\<close> is everything
  \<open>convert\<close> can change: the files, the files handed to the operating system's open
  action, the React state of \<open>App\<close> (\<open>status\<close>, \<open>error\<close>, \<open>busy\<close>) and the watcher
  reference.
\<close>

datatype node = File string | Directory | Special

datatype Status =
    ValidatingInputPath
  | ReadingMarkdown
  | PreparingOptions
  | ConvertingVerbose jsval bool bool
  | Converting
  | WritingPath string
  | WritingOutputFile
  | Done string
  | Opening string
  | WatchingAfter "Status option"

record World =
  files :: "string \<Rightarrow> node option"
  opened :: "string list"
  status :: "Status option"
  error :: "string option"
  busy :: bool
  fileWatcherRef :: "string option"

text \<open>A thrown value: its \<open>code\<close>, if it has one, and its \<open>message\<close>.\<close>

record Err =
  code :: "string option"
  message :: string

text \<open>
  The outcomes that the code does not decide: a read, write, open or watch failure of the
  operating system, the result of \<open>JSON.parse\<close> and of the external converter. A failed
  write names what it leaves at the path.
\<close>

record Env =
  readFailure :: "string \<Rightarrow> Err option"
  JSON_parse :: "string \<Rightarrow> Err + jsval"
  convertMarkdownToDocx :: "string \<Rightarrow> Options \<Rightarrow> Err + string"
  writeFailure :: "string \<Rightarrow> (Err \<times> node option) option"
  openFailure :: "string \<Rightarrow> Err option"
  watchFailure :: "string \<Rightarrow> Err option"

definition tryStat :: "World \<Rightarrow> string \<Rightarrow> node option" where
  "tryStat w p = files w p"

fun isFile :: "node option \<Rightarrow> bool" where
  "isFile (Some (File c)) = True"
| "isFile st = False"

fun isDirectory :: "node option \<Rightarrow> bool" where
  "isDirectory (Some Directory) = True"
| "isDirectory st = False"

definition readFile :: "Env \<Rightarrow> World \<Rightarrow> string \<Rightarrow> Err + string" where
  "readFile env w p =
     (case files w p of
        None \<Rightarrow>
          Inl \<lparr>code = Some ''ENOENT'',
               message = ''ENOENT: no such file or directory, open '' @ p\<rparr>
      | Some (File c) \<Rightarrow> (case readFailure env p of Some e \<Rightarrow> Inl e | None \<Rightarrow> Inr c)
      | Some Directory \<Rightarrow>
          Inl \<lparr>code = Some ''EISDIR'',
               message = ''EISDIR: illegal operation on a directory, read''\<rparr>
      | Some Special \<Rightarrow> (case readFailure env p of Some e \<Rightarrow> Inl e | None \<Rightarrow> Inr []))"

definition jsonFailure :: "string \<Rightarrow> Err \<Rightarrow> Err + jsval" where
  "jsonFailure filePath err =
     (if code err = Some ''ENOENT'' then Inr JUndefined
      else Inl \<lparr>code = None,
             message = ''Failed to read or parse JSON: '' @ filePath @ [NL] @ message err\<rparr>)"

definition loadJsonIfExists :: "Env \<Rightarrow> World \<Rightarrow> string option \<Rightarrow> Err + jsval" where
  "loadJsonIfExists env w filePath =
     (case filePath of
        None \<Rightarrow> Inr JUndefined
      | Some p \<Rightarrow>
          if p = [] then Inr JUndefined
          else (case readFile env w p of
                  Inl err \<Rightarrow> jsonFailure p err
                | Inr text \<Rightarrow>
                    (case JSON_parse env text of
                       Inl err \<Rightarrow> jsonFailure p err
                     | Inr v \<Rightarrow> Inr v)))"

definition setStatus :: "Status \<Rightarrow> World \<Rightarrow> World" where
  "setStatus st w = w\<lparr>status := Some st\<rparr>"

text \<open>
  The final output path: \<open>resolveOutputPath\<close>, then the check whether the desired output
  is an existing directory.
\<close>

definition outPath :: "World \<Rightarrow> Flags \<Rightarrow> string \<Rightarrow> string" where
  "outPath w flags inPath =
     (let resolved = resolveOutputPath inPath (output flags) in
      case output flags of
        None \<Rightarrow> resolved
      | Some d \<Rightarrow>
          if d \<noteq> [] \<and> isDirectory (tryStat w d)
          then join [d, name (parse inPath) @ ''.docx'']
          else resolved)"

text \<open>
  The phases before the write: validate, read, prepare options, convert, resolve the
  output path. The result is the exception thrown, or the converted bytes and the output
  path; the world changes in its status only.
\<close>

definition beforePersist ::
  "Env \<Rightarrow> Flags \<Rightarrow> string \<Rightarrow> World \<Rightarrow> (Err + string \<times> string) \<times> World" where
  "beforePersist env flags inPath w0 =
     (let w1 = setStatus ValidatingInputPath w0 in
      if \<not> isFile (tryStat w1 inPath) then
        (Inl \<lparr>code = None, message = ''Input not found or not a file: '' @ inPath\<rparr>, w1)
      else
        (let w2 = setStatus ReadingMarkdown w1 in
         case readFile env w2 inPath of
           Inl e \<Rightarrow> (Inl e, w2)
         | Inr markdown \<Rightarrow>
             (let w3 = setStatus PreparingOptions w2 in
              case loadJsonIfExists env w3 (Some ''.mdtodocxrc.json'') of
                Inl e \<Rightarrow> (Inl e, w3)
              | Inr rc \<Rightarrow>
                  (case loadJsonIfExists env w3 (style flags) of
                     Inl e \<Rightarrow> (Inl e, w3)
                   | Inr styleFromFile \<Rightarrow>
                       (let opts = options flags rc styleFromFile;
                            w4 = setStatus
                                   (if truthy_bool (verbose flags)
                                    then ConvertingVerbose (documentType opts)
                                           (truthy_bool (rtl flags)) (truthy_bool (toc flags))
                                    else Converting) w3
                        in case convertMarkdownToDocx env (effectiveMarkdown flags markdown) opts of
                             Inl e \<Rightarrow> (Inl e, w4)
                           | Inr blob \<Rightarrow> (Inr (blob, outPath w4 flags inPath), w4))))))"

text \<open>\<open>writeFile(outPath, Buffer.from(ab))\<close>\<close>

definition writeFile :: "Env \<Rightarrow> string \<Rightarrow> string \<Rightarrow> World \<Rightarrow> Err option \<times> World" where
  "writeFile env p bytes w =
     (case writeFailure env p of
        Some (e, left) \<Rightarrow> (Some e, w\<lparr>files := (files w)(p := left)\<rparr>)
      | None \<Rightarrow> (None, w\<lparr>files := (files w)(p \<mapsto> File bytes)\<rparr>))"

text \<open>\<open>if (flags.open) { setStatus(`Opening ...`); await openFile(outPath); }\<close>\<close>

definition openPhase :: "Env \<Rightarrow> Flags \<Rightarrow> string \<Rightarrow> World \<Rightarrow> Err option \<times> World" where
  "openPhase env flags p w =
     (if truthy_bool (open flags) then
        (case openFailure env p of
           Some e \<Rightarrow> (Some e, setStatus (Opening p) w)
         | None \<Rightarrow> (None, (setStatus (Opening p) w)\<lparr>opened := opened w @ [p]\<rparr>))
      else (None, w))"

text \<open>
  Setting up the watcher after the first successful conversion; a failure of \<open>watch\<close> is
  caught on the spot.
\<close>

definition watchPhase :: "Env \<Rightarrow> Flags \<Rightarrow> string \<Rightarrow> World \<Rightarrow> World" where
  "watchPhase env flags inPath w =
     (if truthy_bool (watch flags) \<and> fileWatcherRef w = None then
        (case watchFailure env inPath of
           Some watchErr \<Rightarrow>
             w\<lparr>status := None,
               error := Some (''Failed to start file watcher: '' @ message watchErr)\<rparr>
         | None \<Rightarrow>
             w\<lparr>fileWatcherRef := Some inPath, status := Some (WatchingAfter (status w))\<rparr>)
      else w)"

text \<open>The body of the \<open>try\<close> block: the exception it ends with, if any, and the world.\<close>

definition convertBody :: "Env \<Rightarrow> Flags \<Rightarrow> string \<Rightarrow> World \<Rightarrow> Err option \<times> World" where
  "convertBody env flags inPath w0 =
     (case beforePersist env flags inPath w0 of
        (Inl e, w4) \<Rightarrow> (Some e, w4)
      | (Inr (blob, p), w4) \<Rightarrow>
          (let w5 = setStatus (if truthy_bool (verbose flags) then WritingPath p
                               else WritingOutputFile) w4
           in case writeFile env p blob w5 of
                (Some e, w6) \<Rightarrow> (Some e, w6)
              | (None, w6) \<Rightarrow>
                  (case openPhase env flags p (setStatus (Done p) w6) of
                     (Some e, w7) \<Rightarrow> (Some e, w7)
                   | (None, w7) \<Rightarrow> (None, watchPhase env flags inPath w7))))"

text \<open>
  \<open>convert\<close>: \<open>try { setBusy(true); setError(null); ... } catch (e) { setError(e.message) }
  finally { setBusy(false) }\<close>
\<close>

definition convert :: "Env \<Rightarrow> Flags \<Rightarrow> string \<Rightarrow> World \<Rightarrow> World" where
  "convert env flags inPath w =
     (case convertBody env flags inPath (w\<lparr>busy := True, error := None\<rparr>) of
        (Some e, w') \<Rightarrow> w'\<lparr>error := Some (message e), busy := False\<rparr>
      | (None, w') \<Rightarrow> w'\<lparr>busy := False\<rparr>)"

section \<open>File watcher and debounce timer\<close>

text \<open>
  The watcher's listener, over the timers of the runtime in virtual time (milliseconds):
  \<open>timers\<close> are the pending timeouts with their handle and due time, \<open>setTimeout\<close> adds
  one under a fresh handle, \<open>clearTimeout\<close> removes the one with the given handle. The
  callback of the debounce timer calls \<open>convert(inPath)\<close>; \<open>reconversions\<close> records the
  times of these calls.
\<close>

record WatchSession =
  now :: nat
  timers :: "(nat \<times> nat) list"
  nextHandle :: nat
  debounceTimerRef :: "nat option"
  reconversions :: "nat list"

definition clearTimeout :: "nat \<Rightarrow> WatchSession \<Rightarrow> WatchSession" where
  "clearTimeout h s = s\<lparr>timers := filter (\<lambda>(h', due). h' \<noteq> h) (timers s)\<rparr>"

definition setTimeout :: "nat \<Rightarrow> WatchSession \<Rightarrow> nat \<times> WatchSession" where
  "setTimeout delay s =
     (nextHandle s,
      s\<lparr>timers := timers s @ [(nextHandle s, now s + delay)], nextHandle := nextHandle s + 1\<rparr>)"

text \<open>
  \<open>() => { if (debounceTimerRef.current) clearTimeout(debounceTimerRef.current);
            debounceTimerRef.current = setTimeout(() => { void convert(inPath); }, 200); }\<close>
\<close>

definition onChange :: "WatchSession \<Rightarrow> WatchSession" where
  "onChange s =
     (let s1 = (case debounceTimerRef s of Some h \<Rightarrow> clearTimeout h s | None \<Rightarrow> s);
          (h, s2) = setTimeout 200 s1
      in s2\<lparr>debounceTimerRef := Some h\<rparr>)"

text \<open>
  Time passes up to \<open>t\<close>: the timers due by then fire in the order of their due times,
  each one starting a reconversion at its due time.
\<close>

definition advanceTo :: "nat \<Rightarrow> WatchSession \<Rightarrow> WatchSession" where
  "advanceTo t s =
     s\<lparr>now := max (now s) t,
       timers := filter (\<lambda>(h, due). t < due) (timers s),
       reconversions :=
         reconversions s @ sort (map snd (filter (\<lambda>(h, due). due \<le> t) (timers s)))\<rparr>"

definition notify :: "nat \<Rightarrow> WatchSession \<Rightarrow> WatchSession" where
  "notify t s = onChange (advanceTo t s)"

fun notifications :: "nat list \<Rightarrow> WatchSession \<Rightarrow> WatchSession" where
  "notifications [] s = s"
| "notifications (t # ts) s = notifications ts (notify t s)"

text \<open>After the last notification, time passes until no timer is pending.\<close>

definition settle :: "WatchSession \<Rightarrow> WatchSession" where
  "settle s = advanceTo (fold max (map snd (timers s)) (now s)) s"

text \<open>
  A burst starting at \<open>t\<close>: every notification arrives less than 200 ms after the one
  before it.
\<close>

fun burst :: "nat \<Rightarrow> nat list \<Rightarrow> bool" where
  "burst t [] = True"
| "burst t (u # us) = (t \<le> u \<and> u < t + 200 \<and> burst u us)"

definition idle :: "nat \<Rightarrow> WatchSession" where
  "idle t = \<lparr>now = t, timers = [], nextHandle = 0, debounceTimerRef = None,
     reconversions = []\<rparr>"

section \<open>Wizard\<close>

text \<open>\<open>stepOrder\<close> and the state of \<open>Wizard.tsx\<close>.\<close>

datatype Step = Welcome | PickType | Toc | Rtl | Align | Style | Output | Watch | Verbose
  | Open | Confirm | Run

definition stepOrder :: "Step list" where
  "stepOrder = [Welcome, PickType, Toc, Rtl, Align, Style, Output, Watch, Verbose, Open,
     Confirm, Run]"

record WizardState =
  step :: Step
  inputPath :: string
  flags :: Flags

text \<open>\<open>xs.indexOf(x)\<close>, \<open>-1\<close> when \<open>x\<close> is not in \<open>xs\<close>.\<close>

fun indexOf :: "'a list \<Rightarrow> 'a \<Rightarrow> int" where
  "indexOf [] x = - 1"
| "indexOf (y # ys) x =
     (if y = x then 0 else (let i = indexOf ys x in if i < 0 then - 1 else i + 1))"

text \<open>
  \<open>goPrev\<close>: every step is in \<open>stepOrder\<close>, so the index read is between 0 and 10.
\<close>

definition goPrev :: "WizardState \<Rightarrow> WizardState" where
  "goPrev s =
     (let idx = indexOf stepOrder (step s);
          prev = stepOrder ! nat (max 0 (idx - 1))
      in s\<lparr>step := prev\<rparr>)"

definition next_step :: "Step \<Rightarrow> WizardState \<Rightarrow> WizardState" where
  "next_step st s = s\<lparr>step := st\<rparr>"

text \<open>\<open>toLowerCase\<close> on code units below 256.\<close>

definition lowerChar :: "char \<Rightarrow> char" where
  "lowerChar c =
     (let n = of_char c :: nat in
      if (65 \<le> n \<and> n \<le> 90) \<or> (192 \<le> n \<and> n \<le> 222 \<and> n \<noteq> 215) then char_of (n + 32)
      else c)"

definition toLowerCase :: "string \<Rightarrow> string" where
  "toLowerCase s = map lowerChar s"

text \<open>The key object of \<open>useInput\<close>; the handler reads \<open>escape\<close> only.\<close>

record Key =
  escape :: bool

text \<open>The keyboard shortcuts: b/esc to go back, c/q to cancel, r to run on confirm.\<close>

definition useInput :: "string \<Rightarrow> Key \<Rightarrow> WizardState \<Rightarrow> WizardState" where
  "useInput input key s =
     (if escape key \<or> toLowerCase input = ''b'' then goPrev s
      else if toLowerCase input = ''c'' \<or> toLowerCase input = ''q'' then s\<lparr>step := Welcome\<rparr>
      else if toLowerCase input = ''r'' \<and> step s = Confirm then next_step Run s
      else s)"

text \<open>The \<open>onSelect\<close> of the list that \<open>withNav\<close> builds, for the value of the chosen item.\<close>

definition withNav :: "(jsval \<Rightarrow> WizardState \<Rightarrow> WizardState) \<Rightarrow> jsval \<Rightarrow> WizardState \<Rightarrow> WizardState" where
  "withNav onSelect item s =
     (if item = JStr ''__nav_back__'' then goPrev s
      else if item = JStr ''__nav_cancel__'' then s\<lparr>step := Welcome\<rparr>
      else onSelect item s)"

text \<open>The selections of the steps that use \<open>withNav\<close>: record the flag, go to the next step.\<close>

definition asString :: "jsval \<Rightarrow> string option" where
  "asString v = (case v of JStr x \<Rightarrow> Some x | _ \<Rightarrow> None)"

definition asBool :: "jsval \<Rightarrow> bool option" where
  "asBool v = (case v of JBool b \<Rightarrow> Some b | _ \<Rightarrow> None)"

fun selectAt :: "Step \<Rightarrow> jsval \<Rightarrow> WizardState \<Rightarrow> WizardState" where
  "selectAt PickType v s = next_step Toc (s\<lparr>flags := (flags s)\<lparr>type := asString v\<rparr>\<rparr>)"
| "selectAt Toc v s = next_step Rtl (s\<lparr>flags := (flags s)\<lparr>toc := asBool v\<rparr>\<rparr>)"
| "selectAt Rtl v s = next_step Align (s\<lparr>flags := (flags s)\<lparr>rtl := asBool v\<rparr>\<rparr>)"
| "selectAt Align v s = next_step Style (s\<lparr>flags := (flags s)\<lparr>align := asString v\<rparr>\<rparr>)"
| "selectAt Watch v s = next_step Verbose (s\<lparr>flags := (flags s)\<lparr>watch := asBool v\<rparr>\<rparr>)"
| "selectAt Verbose v s = next_step Open (s\<lparr>flags := (flags s)\<lparr>verbose := asBool v\<rparr>\<rparr>)"
| "selectAt Open v s = next_step Confirm (s\<lparr>flags := (flags s)\<lparr>open := asBool v\<rparr>\<rparr>)"
| "selectAt st v s = s"


text \<open>
  At most one timer is pending, and it is the one \<open>debounceTimerRef\<close> refers to; and the
  state right after a notification at time \<open>t\<close>: one timer, due at \<open>t + 200\<close>.
\<close>

definition atMostOnePending :: "WatchSession \<Rightarrow> bool" where
  "atMostOnePending s =
     (case timers s of
        [] \<Rightarrow> True
      | (h, due) # rest \<Rightarrow> rest = [] \<and> debounceTimerRef s = Some h)"

definition armed :: "nat \<Rightarrow> WatchSession \<Rightarrow> bool" where
  "armed t s =
     (case timers s of
        [] \<Rightarrow> False
      | (h, due) # rest \<Rightarrow>
          rest = [] \<and> due = t + 200 \<and> debounceTimerRef s = Some h \<and> now s = t)"

section \<open>Example inputs\<close>

text \<open>
  A directory that holds \<open>doc.md\<close> and the directory \<open>build\<close>, with no configuration
  file; an environment in which reading, converting, writing and watching succeed and the
  open action fails.
\<close>

definition exampleWorld :: World where
  "exampleWorld =
     \<lparr>files = [''doc.md'' \<mapsto> File ''# Title'', ''build'' \<mapsto> Directory],
      opened = [], status = None, error = None, busy = False, fileWatcherRef = None\<rparr>"

definition exampleEnv :: Env where
  "exampleEnv =
     \<lparr>readFailure = (\<lambda>p. None),
      JSON_parse = (\<lambda>text. Inl \<lparr>code = None, message = ''Unexpected token''\<rparr>),
      convertMarkdownToDocx = (\<lambda>markdown opts. Inr (''docx of '' @ markdown)),
      writeFailure = (\<lambda>p. None),
      openFailure = (\<lambda>p. Some \<lparr>code = Some ''ENOENT'', message = ''spawn xdg-open ENOENT''\<rparr>),
      watchFailure = (\<lambda>p. None)\<rparr>"

definition openAndWatch :: Flags where
  "openAndWatch = noFlags\<lparr>open := Some True, watch := Some True\<rparr>"

text \<open>A wizard in the middle of its steps, with a document type and the TOC flag recorded.\<close>

definition midWizard :: WizardState where
  "midWizard = \<lparr>step = Align, inputPath = ''doc.md'',
     flags = noFlags\<lparr>type := Some ''report'', toc := Some True\<rparr>\<rparr>"

text \<open>The same directory with a configuration file that is not valid JSON.\<close>

definition brokenConfigWorld :: World where
  "brokenConfigWorld = exampleWorld\<lparr>files := (files exampleWorld)(''.mdtodocxrc.json'' \<mapsto> File ''{'')\<rparr>"

text \<open>The flags of the two scenarios of the specification.\<close>

definition tocReport :: Flags where
  "tocReport = noFlags\<lparr>toc := Some True, type := Some ''report''\<rparr>"

definition alignCenter :: Flags where
  "alignCenter = noFlags\<lparr>align := Some ''CENTER''\<rparr>"

section \<open>Text fields of the wizard\<close>

text \<open>
  The style and the output step show a text field:
  \<open>value={flags.style ?? ""}\<close>, \<open>onChange={(v) => setFlag("style", v || undefined)}\<close>,
  and the same for \<open>output\<close>.
\<close>

definition fieldValue :: "string option \<Rightarrow> string" where
  "fieldValue f = (case f of None \<Rightarrow> [] | Some v \<Rightarrow> v)"

definition onChangeStyle :: "string \<Rightarrow> WizardState \<Rightarrow> WizardState" where
  "onChangeStyle v s = s\<lparr>flags := (flags s)\<lparr>style := (if v = [] then None else Some v)\<rparr>\<rparr>"

definition onChangeOutput :: "string \<Rightarrow> WizardState \<Rightarrow> WizardState" where
  "onChangeOutput v s = s\<lparr>flags := (flags s)\<lparr>output := (if v = [] then None else Some v)\<rparr>\<rparr>"

text \<open>
  The key handler of the text-input widget (\<open>ink-text-input\<close>), for a keystroke that is
  not an arrow, Return, Tab, Backspace, Delete or Ctrl-C: the input is inserted at the
  widget's cursor, and the \<open>onChange\<close> property is called when that changes the value. Escape comes
  with the empty input. The cursor offset is the widget's own state, at most the length
  of the value.
\<close>

definition textInput ::
  "nat \<Rightarrow> string \<Rightarrow> string \<Rightarrow> (string \<Rightarrow> WizardState \<Rightarrow> WizardState) \<Rightarrow> WizardState
     \<Rightarrow> WizardState" where
  "textInput cursorOffset input originalValue onChangeProp s =
     (let nextValue = slice originalValue 0 cursorOffset @ input
            @ slice originalValue cursorOffset (length originalValue)
      in if nextValue \<noteq> originalValue then onChangeProp nextValue s else s)"

text \<open>
  One such keystroke in the wizard: every input handler that is mounted receives it, the
  text field of the current step (the one of the confirm step ignores changes) and the
  wizard's own \<open>useInput\<close>. The two write different parts of the state, and \<open>useInput\<close>
  reads the step only.
\<close>

definition keyPress :: "nat \<Rightarrow> string \<Rightarrow> Key \<Rightarrow> WizardState \<Rightarrow> WizardState" where
  "keyPress cursorOffset input key s =
     useInput input key
       (if step s = Style then
          textInput cursorOffset input (fieldValue (style (flags s))) onChangeStyle s
        else if step s = Output then
          textInput cursorOffset input (fieldValue (output (flags s))) onChangeOutput s
        else s)"

text \<open>A wizard at the style step, with the style path \<open>s.json\<close> typed in.\<close>

definition styleWizard :: WizardState where
  "styleWizard = \<lparr>step = Style, inputPath = ''doc.md'',
     flags = noFlags\<lparr>type := Some ''report'', style := Some ''s.json''\<rparr>\<rparr>"

section \<open>Properties of the marker insertion\<close>

lemma includes_append_left: "includes s pat \<Longrightarrow> includes (p @ s) pat"
  by (induction p) simp_all

lemma includes_tocPrefix: "includes (tocPrefix @ t) ''[TOC]''"
  by (simp add: tocPrefix_def NL_def)

lemma occurrences_zero: "\<not> includes s pat \<Longrightarrow> occurrences pat s = 0"
  by (induction s) simp_all

lemma occurrences_tocPrefix:
  "\<not> includes t ''[TOC]'' \<Longrightarrow> occurrences ''[TOC]'' (tocPrefix @ t) = 1"
  by (simp add: tocPrefix_def NL_def occurrences_zero)

text \<open>
  Claim C3. Inserting the table-of-contents marker is idempotent: applying
  \<open>effectiveMarkdown\<close> twice gives what applying it once gives. With the \<open>toc\<close> flag
  set, a text that already contains the literal \<open>[TOC]\<close> is returned unchanged, and a
  text without it gets the prefix \<open>\n[TOC]\n\n\<close> (the marker line followed by a blank
  line, after a leading line break) exactly once: the result contains one occurrence of
  the marker.
\<close>

theorem effectiveMarkdown_idempotent:
  "effectiveMarkdown fl (effectiveMarkdown fl t) = effectiveMarkdown fl t
   \<and> (truthy_bool (toc fl) \<longrightarrow> includes t ''[TOC]'' \<longrightarrow> effectiveMarkdown fl t = t)
   \<and> (truthy_bool (toc fl) \<longrightarrow> \<not> includes t ''[TOC]'' \<longrightarrow>
        effectiveMarkdown fl t = tocPrefix @ t
        \<and> occurrences ''[TOC]'' (effectiveMarkdown fl t) = 1)"
  by (simp add: effectiveMarkdown_def includes_tocPrefix occurrences_tocPrefix)

theorem effectiveMarkdown_idempotent_witness:
  "truthy_bool (toc (noFlags\<lparr>toc := Some True\<rparr>))
   \<and> \<not> includes ''# Title'' ''[TOC]''
   \<and> effectiveMarkdown (noFlags\<lparr>toc := Some True\<rparr>) ''# Title'' = tocPrefix @ ''# Title''
   \<and> occurrences ''[TOC]'' (effectiveMarkdown (noFlags\<lparr>toc := Some True\<rparr>) ''# Title'') = 1
   \<and> includes ''a [TOC] b'' ''[TOC]''
   \<and> effectiveMarkdown (noFlags\<lparr>toc := Some True\<rparr>) ''a [TOC] b'' = ''a [TOC] b''"
proof -
  let ?F = "noFlags\<lparr>toc := Some True\<rparr>"
  have a: "truthy_bool (toc ?F)"
    by (simp add: truthy_bool_def)
  have b: "\<not> includes ''# Title'' ''[TOC]''"
    by simp
  have c: "includes ''a [TOC] b'' ''[TOC]''"
    by simp
  from effectiveMarkdown_idempotent [of ?F "''# Title''"] a b
  have d: "effectiveMarkdown ?F ''# Title'' = tocPrefix @ ''# Title''
      \<and> occurrences ''[TOC]'' (effectiveMarkdown ?F ''# Title'') = 1"
    by blast
  from effectiveMarkdown_idempotent [of ?F "''a [TOC] b''"] a c
  have e: "effectiveMarkdown ?F ''a [TOC] b'' = ''a [TOC] b''"
    by blast
  from a b c d e show ?thesis
    by blast
qed

section \<open>Properties of the style sanitizer\<close>

lemma Number_isFinite_iff: "Number_isFinite v \<longleftrightarrow> (\<exists>q. v = JNum (Finite q))"
  by (cases v rule: Number_isFinite.cases) simp_all

lemma keys_disjoint:
  "numericStyleKeys \<inter> booleanStyleKeys = {}"
  "numericStyleKeys \<inter> stringStyleKeys = {}"
  "booleanStyleKeys \<inter> stringStyleKeys = {}"
  by (simp_all add: numericStyleKeys_def booleanStyleKeys_def stringStyleKeys_def)

lemma map_of_setAll:
  "map_of (setAll obj es) k = (case map_of (rev es) k of Some v \<Rightarrow> Some v | None \<Rightarrow> map_of obj k)"
proof (induction es arbitrary: obj)
  case Nil
  then show ?case by (simp add: setAll_def)
next
  case (Cons e es)
  obtain k' v' where e: "e = (k', v')" by (cases e)
  have "setAll obj (e # es) = setAll (AList.update k' v' obj) es"
    by (simp add: setAll_def e)
  then show ?case
    using Cons.IH [of "AList.update k' v' obj"]
    by (auto simp: e update_conv' map_add_def split: option.splits)
qed

lemma distinct_setAll: "distinct (map fst obj) \<Longrightarrow> distinct (map fst (setAll obj es))"
proof (induction es arbitrary: obj)
  case Nil
  then show ?case by (simp add: setAll_def)
next
  case (Cons e es)
  obtain k' v' where e: "e = (k', v')" by (cases e)
  have "setAll obj (e # es) = setAll (AList.update k' v' obj) es"
    by (simp add: setAll_def e)
  then show ?case
    using Cons.IH [of "AList.update k' v' obj"] Cons.prems
    by (simp add: distinct_update)
qed

lemma map_of_rev_distinct:
  assumes "distinct (map fst es)"
  shows "map_of (rev es) k = map_of es k"
proof (cases "map_of es k")
  case None
  then have "k \<notin> fst ` set (rev es)"
    by (simp add: map_of_eq_None_iff)
  then show ?thesis
    using None by (simp only: map_of_eq_None_iff [symmetric])
next
  case (Some v)
  then have "(k, v) \<in> set (rev es)"
    by (auto dest: map_of_SomeD)
  moreover have "distinct (map fst (rev es))"
    using assms by (simp add: rev_map [symmetric])
  ultimately show ?thesis
    using Some by (simp add: map_of_eq_Some_iff)
qed

lemma getProp_fromEntries_distinct:
  "distinct (map fst es) \<Longrightarrow> getProp (fromEntries es) k = map_of es k"
  by (simp add: getProp_def fromEntries_def map_of_setAll map_of_rev_distinct split: option.splits)

lemma getProp_fromEntries_in:
  "getProp (fromEntries es) k = Some v \<Longrightarrow> (k, v) \<in> set es"
  by (auto simp: getProp_def fromEntries_def map_of_setAll split: option.splits dest: map_of_SomeD)

lemma keepEntry_sound:
  assumes "keepEntry (k, v)"
  shows "(k \<in> numericStyleKeys \<and> Number_isFinite (num v))
       \<or> (k \<notin> numericStyleKeys \<and> k \<in> booleanStyleKeys \<and> (\<exists>b. v = JBool b))
       \<or> (k \<notin> numericStyleKeys \<and> k \<notin> booleanStyleKeys \<and> k \<in> stringStyleKeys
            \<and> (\<exists>s. v = JStr s \<and> s \<noteq> []))"
  using assms by (cases v) (auto split: if_splits)

lemma sanitizedStyle_entry:
  assumes "getProp (sanitizedStyle m) k = Some v"
  shows "\<exists>v0. (k, v0) \<in> set m \<and> keepEntry (k, v0) \<and> (k, v) = coerceEntry (k, v0)"
proof -
  from assms have "(k, v) \<in> set (map coerceEntry (sanitizedStyleEntries m))"
    unfolding sanitizedStyle_def by (rule getProp_fromEntries_in)
  then obtain e where e: "e \<in> set m" "keepEntry e" "(k, v) = coerceEntry e"
    by (auto simp: sanitizedStyleEntries_def)
  obtain k0 v0 where kv: "e = (k0, v0)" by (cases e)
  with e(3) have "k0 = k" by (simp split: if_splits)
  with e kv show ?thesis by blast
qed

lemma fst_coerceEntry: "fst (coerceEntry e) = fst e"
  by (cases e) simp

lemma sanitizedStyle_lookup:
  assumes "distinct (map fst m)"
  shows "getProp (sanitizedStyle m) k =
     (case map_of m k of
        None \<Rightarrow> None
      | Some v \<Rightarrow> if keepEntry (k, v) then Some (snd (coerceEntry (k, v))) else None)"
proof -
  let ?es = "map coerceEntry (sanitizedStyleEntries m)"
  have fsts: "map fst ?es = map fst (filter keepEntry m)"
    by (simp add: sanitizedStyleEntries_def fst_coerceEntry cong: map_cong)
  have d: "distinct (map fst ?es)"
    unfolding fsts using assms by (rule distinct_map_filter)
  have "getProp (sanitizedStyle m) k = map_of ?es k"
    unfolding sanitizedStyle_def using d by (rule getProp_fromEntries_distinct)
  also have "\<dots> = (case map_of m k of
        None \<Rightarrow> None
      | Some v \<Rightarrow> if keepEntry (k, v) then Some (snd (coerceEntry (k, v))) else None)"
    using assms unfolding sanitizedStyleEntries_def
  proof (induction m)
    case Nil
    then show ?case by simp
  next
    case (Cons e m)
    obtain k0 v0 where e: "e = (k0, v0)" by (cases e)
    from Cons.prems have nin: "k0 \<notin> fst ` set m" and dm: "distinct (map fst m)"
      by (simp_all add: e)
    from nin have none: "map_of m k0 = None"
      by (simp add: map_of_eq_None_iff)
    show ?case
    proof (cases "k = k0")
      case True
      have "map_of (map coerceEntry (filter keepEntry m)) k0 = None"
        using Cons.IH [OF dm] none True by simp
      then show ?thesis
        using True by (simp add: e)
    next
      case False
      then show ?thesis
        using Cons.IH [OF dm] by (simp add: e)
    qed
  qed
  finally show ?thesis .
qed


lemma trim_blank:
  assumes "\<forall>c\<in>set s. isWhiteSpace c"
  shows "trim s = []"
proof -
  from assms have "dropWhile isWhiteSpace s = []"
    by (induction s) simp_all
  then show ?thesis
    unfolding trim_def by (simp only: rev.simps dropWhile.simps)
qed

lemma StringToNumber_blank: "\<forall>c\<in>set s. isWhiteSpace c \<Longrightarrow> StringToNumber s = Finite 0"
  by (simp add: StringToNumber_def trim_blank)

lemma roundToDouble_small: "\<bar>v\<bar> \<le> 2 ^ 64 \<Longrightarrow> roundToDouble v = Finite v"
proof -
  assume a: "\<bar>v\<bar> \<le> 2 ^ 64"
  have "(2::rat) ^ 64 < 2 ^ 1024 - 2 ^ 970"
    by simp
  with a show ?thesis
    by (auto simp: roundToDouble_def abs_le_iff)
qed

lemmas number_simps = StringToNumber_def trim_def isWhiteSpace_def nonDecimalLiteral_def
  strDecimalLiteral_def unsignedDecimal_def decimalLiteral_def isExponentIndicator_def
  optDigits_def digits_def digitValue_def exponentPart_def signedInteger_def pow10_def
  integerValue_def roundToDouble_small

lemma StringToNumber_24: "StringToNumber ''24'' = Finite 24"
  by (simp add: number_simps)

lemma StringToNumber_abc: "StringToNumber ''abc'' = NaN"
  by (simp add: number_simps)

lemma sanitizedStyle_numeric_string:
  assumes "distinct (map fst m)" and "(k, JStr s) \<in> set m" and "k \<in> numericStyleKeys"
  shows "getProp (sanitizedStyle m) k =
     (if Number_isFinite (JNum (StringToNumber s)) then Some (JNum (StringToNumber s)) else None)"
proof -
  from assms(1,2) have "map_of m k = Some (JStr s)"
    by (simp add: map_of_eq_Some_iff)
  with assms(1,3) show ?thesis
    by (simp add: sanitizedStyle_lookup num_def)
qed

lemma sanitizedStyle_value_sound:
  assumes out: "getProp (sanitizedStyle m) k = Some v"
  shows "k \<in> numericStyleKeys \<union> booleanStyleKeys \<union> stringStyleKeys
      \<and> (k \<in> numericStyleKeys \<longrightarrow> (\<exists>q. v = JNum (Finite q)))
      \<and> (k \<in> booleanStyleKeys \<longrightarrow> (\<exists>b. v = JBool b) \<and> (k, v) \<in> set m)
      \<and> (k \<in> stringStyleKeys \<longrightarrow> (\<exists>s. v = JStr s \<and> s \<noteq> []) \<and> (k, v) \<in> set m)"
proof -
  from out obtain v0 where v0: "(k, v0) \<in> set m" "keepEntry (k, v0)" "(k, v) = coerceEntry (k, v0)"
    using sanitizedStyle_entry by blast
  note cases = keepEntry_sound [OF v0(2)]
  have a: "k \<in> numericStyleKeys \<union> booleanStyleKeys \<union> stringStyleKeys"
    using cases by blast
  have b: "\<exists>q. v = JNum (Finite q)" if kn: "k \<in> numericStyleKeys"
  proof -
    from cases kn have "Number_isFinite (num v0)" by blast
    moreover from v0(3) kn have "v = num v0" by simp
    ultimately show ?thesis
      by (simp add: Number_isFinite_iff)
  qed
  have c: "(\<exists>b. v = JBool b) \<and> (k, v) \<in> set m" if kb: "k \<in> booleanStyleKeys"
  proof -
    from keys_disjoint(1) kb have kn: "k \<notin> numericStyleKeys" by blast
    with v0(3) have "v = v0" by simp
    with cases kn kb v0(1) show ?thesis by blast
  qed
  have d: "(\<exists>s. v = JStr s \<and> s \<noteq> []) \<and> (k, v) \<in> set m" if ks: "k \<in> stringStyleKeys"
  proof -
    from keys_disjoint(2,3) ks have kn: "k \<notin> numericStyleKeys" and kb: "k \<notin> booleanStyleKeys"
      by blast+
    from kn v0(3) have "v = v0" by simp
    with cases kn kb ks v0(1) show ?thesis by blast
  qed
  from a b c d show ?thesis by blast
qed

lemma sanitizedStyle_unknown_key:
  assumes "k \<notin> numericStyleKeys \<union> booleanStyleKeys \<union> stringStyleKeys"
  shows "getProp (sanitizedStyle m) k = None"
proof (cases "getProp (sanitizedStyle m) k")
  case None
  then show ?thesis .
next
  case (Some v)
  then have "k \<in> numericStyleKeys \<union> booleanStyleKeys \<union> stringStyleKeys"
    using sanitizedStyle_value_sound by blast
  with assms show ?thesis by simp
qed

lemma sanitizedStyle_boolean_string:
  assumes d: "distinct (map fst m)" and kb: "k \<in> booleanStyleKeys" and mem: "(k, JStr s) \<in> set m"
  shows "getProp (sanitizedStyle m) k = None"
proof -
  from keys_disjoint(1) kb have kn: "k \<notin> numericStyleKeys" by blast
  from d mem have "map_of m k = Some (JStr s)"
    by (simp add: map_of_eq_Some_iff)
  with d kb kn show ?thesis
    by (simp add: sanitizedStyle_lookup)
qed

text \<open>
  Claim C2. For every merged style object \<open>m\<close>: every key of the sanitized style is one
  of the numeric, boolean or string keys of the schema; under a numeric key the value is
  a finite number, under a boolean key it is a boolean that \<open>m\<close> itself holds under that
  key (nothing is coerced to a boolean), under a string key it is a non-empty string of
  \<open>m\<close>; a key outside the schema is absent from the result; and a string under a
  boolean key (such as \<open>"true"\<close>) is dropped, not coerced.
\<close>

theorem sanitizedStyle_type_sound:
  "(\<forall>k v. getProp (sanitizedStyle m) k = Some v \<longrightarrow>
      k \<in> numericStyleKeys \<union> booleanStyleKeys \<union> stringStyleKeys
      \<and> (k \<in> numericStyleKeys \<longrightarrow> (\<exists>q. v = JNum (Finite q)))
      \<and> (k \<in> booleanStyleKeys \<longrightarrow> (\<exists>b. v = JBool b) \<and> (k, v) \<in> set m)
      \<and> (k \<in> stringStyleKeys \<longrightarrow> (\<exists>s. v = JStr s \<and> s \<noteq> []) \<and> (k, v) \<in> set m))
   \<and> (\<forall>k. k \<notin> numericStyleKeys \<union> booleanStyleKeys \<union> stringStyleKeys \<longrightarrow>
          getProp (sanitizedStyle m) k = None)
   \<and> (\<forall>k s. distinct (map fst m) \<longrightarrow> k \<in> booleanStyleKeys \<longrightarrow> (k, JStr s) \<in> set m \<longrightarrow>
          getProp (sanitizedStyle m) k = None)"
  using sanitizedStyle_value_sound [of m] sanitizedStyle_unknown_key [of _ m]
    sanitizedStyle_boolean_string [of m]
  by blast

text \<open>
  Claim C5. For a string \<open>s\<close> under a numeric key, the sanitized style holds the number
  \<open>Number(s)\<close> under that key if that number is finite, and has no entry for the key
  otherwise: the coercion takes place exactly when its result is finite.
\<close>

theorem numeric_coercion_closure:
  assumes "distinct (map fst m)" and "(k, JStr s) \<in> set m" and "k \<in> numericStyleKeys"
  shows "getProp (sanitizedStyle m) k =
     (if Number_isFinite (JNum (StringToNumber s)) then Some (JNum (StringToNumber s)) else None)"
  using assms by (rule sanitizedStyle_numeric_string)

text \<open>
  Claim C10. A numeric key paired with the empty string, or with a string of white space
  only, is not dropped: the sanitized style holds the number 0 under that key.
\<close>

theorem numeric_blank_string_is_zero:
  assumes "distinct (map fst m)" and "(k, JStr s) \<in> set m" and "k \<in> numericStyleKeys"
    and "\<forall>c\<in>set s. isWhiteSpace c"
  shows "getProp (sanitizedStyle m) k = Some (JNum (Finite 0))"
  using sanitizedStyle_numeric_string [OF assms(1-3)] StringToNumber_blank [OF assms(4)]
  by simp

lemmas style_key_simps = numericStyleKeys_def booleanStyleKeys_def stringStyleKeys_def

lemma StringToNumber_two_spaces: "StringToNumber ''  '' = Finite 0"
  by (simp add: number_simps)

lemma sanitizedStyle_exampleStyle:
  "sanitizedStyle exampleStyle = [(''titleSize'', JNum (Finite 24)),
     (''paragraphSize'', JNum (Finite 0)), (''tocHeading2Bold'', JBool True),
     (''direction'', JStr ''RTL'')]"
  by (simp add: sanitizedStyle_def sanitizedStyleEntries_def fromEntries_def setAll_def
      exampleStyle_def style_key_simps num_def StringToNumber_24 StringToNumber_abc
      StringToNumber_two_spaces)

lemma distinct_exampleStyle: "distinct (map fst exampleStyle)"
  by (simp add: exampleStyle_def)

theorem sanitizedStyle_type_sound_witness:
  "getProp (sanitizedStyle exampleStyle) ''titleSize'' = Some (JNum (Finite 24))
   \<and> ''titleSize'' \<in> numericStyleKeys
   \<and> getProp (sanitizedStyle exampleStyle) ''tocHeading2Bold'' = Some (JBool True)
   \<and> ''tocHeading2Bold'' \<in> booleanStyleKeys
   \<and> (''tocHeading2Bold'', JBool True) \<in> set exampleStyle
   \<and> ''margin'' \<notin> numericStyleKeys \<union> booleanStyleKeys \<union> stringStyleKeys
   \<and> getProp (sanitizedStyle exampleStyle) ''margin'' = None
   \<and> distinct (map fst exampleStyle)
   \<and> ''tocHeading1Bold'' \<in> booleanStyleKeys
   \<and> (''tocHeading1Bold'', JStr ''true'') \<in> set exampleStyle
   \<and> getProp (sanitizedStyle exampleStyle) ''tocHeading1Bold'' = None"
proof -
  note sound = sanitizedStyle_type_sound [of exampleStyle]
  have a: "getProp (sanitizedStyle exampleStyle) ''titleSize'' = Some (JNum (Finite 24))"
    by (simp add: sanitizedStyle_exampleStyle getProp_def)
  have b: "''titleSize'' \<in> numericStyleKeys"
    by (simp add: style_key_simps)
  have c: "getProp (sanitizedStyle exampleStyle) ''tocHeading2Bold'' = Some (JBool True)"
    by (simp add: sanitizedStyle_exampleStyle getProp_def)
  have d: "''tocHeading2Bold'' \<in> booleanStyleKeys"
    by (simp add: style_key_simps)
  from sound c d have e: "(''tocHeading2Bold'', JBool True) \<in> set exampleStyle"
    by blast
  have f: "''margin'' \<notin> numericStyleKeys \<union> booleanStyleKeys \<union> stringStyleKeys"
    by (simp add: style_key_simps)
  from sound f have g: "getProp (sanitizedStyle exampleStyle) ''margin'' = None"
    by blast
  have h: "''tocHeading1Bold'' \<in> booleanStyleKeys"
    by (simp add: style_key_simps)
  have i: "(''tocHeading1Bold'', JStr ''true'') \<in> set exampleStyle"
    by (simp add: exampleStyle_def)
  from sound distinct_exampleStyle h i
  have j: "getProp (sanitizedStyle exampleStyle) ''tocHeading1Bold'' = None"
    by blast
  from a b c d e f g distinct_exampleStyle h i j show ?thesis
    by blast
qed

theorem numeric_coercion_closure_witness:
  "distinct (map fst exampleStyle)
   \<and> (''titleSize'', JStr ''24'') \<in> set exampleStyle
   \<and> (''lineSpacing'', JStr ''abc'') \<in> set exampleStyle
   \<and> ''titleSize'' \<in> numericStyleKeys \<and> ''lineSpacing'' \<in> numericStyleKeys
   \<and> getProp (sanitizedStyle exampleStyle) ''titleSize'' = Some (JNum (Finite 24))
   \<and> getProp (sanitizedStyle exampleStyle) ''lineSpacing'' = None"
proof -
  have a: "(''titleSize'', JStr ''24'') \<in> set exampleStyle"
    and b: "(''lineSpacing'', JStr ''abc'') \<in> set exampleStyle"
    by (simp_all add: exampleStyle_def)
  have c: "''titleSize'' \<in> numericStyleKeys" and d: "''lineSpacing'' \<in> numericStyleKeys"
    by (simp_all add: style_key_simps)
  from numeric_coercion_closure [OF distinct_exampleStyle a c]
  have e: "getProp (sanitizedStyle exampleStyle) ''titleSize'' = Some (JNum (Finite 24))"
    by (simp add: StringToNumber_24)
  from numeric_coercion_closure [OF distinct_exampleStyle b d]
  have f: "getProp (sanitizedStyle exampleStyle) ''lineSpacing'' = None"
    by (simp add: StringToNumber_abc)
  from distinct_exampleStyle a b c d e f show ?thesis
    by blast
qed

theorem numeric_blank_string_is_zero_witness:
  "distinct (map fst blankStyle)
   \<and> (''titleSize'', JStr []) \<in> set blankStyle \<and> ''titleSize'' \<in> numericStyleKeys
   \<and> getProp (sanitizedStyle blankStyle) ''titleSize'' = Some (JNum (Finite 0))
   \<and> (''lineSpacing'', JStr [CHR 0x20, CHR 0x09]) \<in> set blankStyle
   \<and> ''lineSpacing'' \<in> numericStyleKeys
   \<and> isWhiteSpace (CHR 0x20) \<and> isWhiteSpace (CHR 0x09)
   \<and> getProp (sanitizedStyle blankStyle) ''lineSpacing'' = Some (JNum (Finite 0))"
proof -
  have dist: "distinct (map fst blankStyle)"
    by (simp add: blankStyle_def)
  have a: "(''titleSize'', JStr []) \<in> set blankStyle"
    and b: "(''lineSpacing'', JStr [CHR 0x20, CHR 0x09]) \<in> set blankStyle"
    by (simp_all add: blankStyle_def)
  have c: "''titleSize'' \<in> numericStyleKeys" and d: "''lineSpacing'' \<in> numericStyleKeys"
    by (simp_all add: style_key_simps)
  have e: "\<forall>c\<in>set []. isWhiteSpace c" and f: "\<forall>c\<in>set [CHR 0x20, CHR 0x09]. isWhiteSpace c"
    by (simp_all add: isWhiteSpace_def)
  note g = numeric_blank_string_is_zero [OF dist a c e]
  note h = numeric_blank_string_is_zero [OF dist b d f]
  have ws: "isWhiteSpace (CHR 0x20)" "isWhiteSpace (CHR 0x09)"
    by (simp_all add: isWhiteSpace_def)
  from dist a b c d g h ws show ?thesis
    by blast
qed

section \<open>Properties of the output path\<close>

lemma parse_notes_readme:
  "parse ''notes/readme.md'' =
     \<lparr>root = [], dir = ''notes'', base = ''readme.md'', ext = ''.md'', name = ''readme''\<rparr>"
  by code_simp

lemma parse_doc:
  "parse ''doc.md'' = \<lparr>root = [], dir = [], base = ''doc.md'', ext = ''.md'', name = ''doc''\<rparr>"
  by code_simp

lemma join_examples:
  "join [''notes'', ''readme.docx''] = ''notes/readme.docx''"
  "join [''build/'', ''readme.docx''] = ''build/readme.docx''"
  "join [''build'', ''readme.docx''] = ''build/readme.docx''"
  "join [[], ''doc.docx''] = ''doc.docx''"
  by code_simp+

text \<open>
  Claim C4. With no desired output (none given, or the empty string) the output path is
  the directory of the input joined with the input's name and \<open>.docx\<close>; with a
  desired output that ends in the separator, or that is an existing directory when
  \<open>convert\<close> looks, it is the desired output joined with the input's name and
  \<open>.docx\<close>; otherwise it is the desired output itself. Paths are POSIX paths.
\<close>

theorem outPath_resolution:
  "(output fl = None \<or> output fl = Some [] \<longrightarrow>
      outPath w fl inPath = join [dir (parse inPath), name (parse inPath) @ ''.docx''])
   \<and> (output fl = Some d \<longrightarrow> d \<noteq> [] \<longrightarrow> endsWith d sep \<or> isDirectory (tryStat w d) \<longrightarrow>
        outPath w fl inPath = join [d, name (parse inPath) @ ''.docx''])
   \<and> (output fl = Some d \<longrightarrow> d \<noteq> [] \<longrightarrow> \<not> endsWith d sep \<longrightarrow> \<not> isDirectory (tryStat w d) \<longrightarrow>
        outPath w fl inPath = d)"
  by (auto simp: outPath_def resolveOutputPath_def)

theorem outPath_resolution_witness:
  "output noFlags = None
   \<and> outPath exampleWorld noFlags ''notes/readme.md'' = ''notes/readme.docx''
   \<and> output (noFlags\<lparr>output := Some ''build/''\<rparr>) = Some ''build/''
   \<and> endsWith ''build/'' sep
   \<and> outPath exampleWorld (noFlags\<lparr>output := Some ''build/''\<rparr>) ''notes/readme.md''
       = ''build/readme.docx''
   \<and> isDirectory (tryStat exampleWorld ''build'')
   \<and> outPath exampleWorld (noFlags\<lparr>output := Some ''build''\<rparr>) ''notes/readme.md''
       = ''build/readme.docx''
   \<and> \<not> endsWith ''out/final.docx'' sep
   \<and> \<not> isDirectory (tryStat exampleWorld ''out/final.docx'')
   \<and> outPath exampleWorld (noFlags\<lparr>output := Some ''out/final.docx''\<rparr>) ''notes/readme.md''
       = ''out/final.docx''"
proof -
  have a: "output noFlags = None"
    by (simp add: noFlags_def)
  from outPath_resolution [of noFlags exampleWorld "''notes/readme.md''"] a
  have b: "outPath exampleWorld noFlags ''notes/readme.md'' = ''notes/readme.docx''"
    by (simp add: parse_notes_readme join_examples)
  have c: "endsWith ''build/'' sep"
    by (simp add: endsWith_def sep_def)
  from outPath_resolution [of "noFlags\<lparr>output := Some ''build/''\<rparr>" exampleWorld
      "''notes/readme.md''" "''build/''"] c
  have d: "outPath exampleWorld (noFlags\<lparr>output := Some ''build/''\<rparr>) ''notes/readme.md''
       = ''build/readme.docx''"
    by (simp add: parse_notes_readme join_examples)
  have e: "isDirectory (tryStat exampleWorld ''build'')"
    by (simp add: tryStat_def exampleWorld_def)
  from outPath_resolution [of "noFlags\<lparr>output := Some ''build''\<rparr>" exampleWorld
      "''notes/readme.md''" "''build''"] e
  have f: "outPath exampleWorld (noFlags\<lparr>output := Some ''build''\<rparr>) ''notes/readme.md''
       = ''build/readme.docx''"
    by (simp add: parse_notes_readme join_examples)
  have g: "\<not> endsWith ''out/final.docx'' sep"
    by (simp add: endsWith_def sep_def)
  have h: "\<not> isDirectory (tryStat exampleWorld ''out/final.docx'')"
    by (simp add: tryStat_def exampleWorld_def)
  from outPath_resolution [of "noFlags\<lparr>output := Some ''out/final.docx''\<rparr>" exampleWorld
      "''notes/readme.md''" "''out/final.docx''"] g h
  have i: "outPath exampleWorld (noFlags\<lparr>output := Some ''out/final.docx''\<rparr>)
      ''notes/readme.md'' = ''out/final.docx''"
    by simp
  from a b c d e f g h i show ?thesis
    by simp
qed

section \<open>Properties of the document type\<close>

text \<open>
  Inside \<open>convert\<close> the type is the flag, else the configuration value, else
  \<open>"document"\<close>; but the flags that the command line hands over always carry a type.
\<close>

lemma documentType_precedence:
  "type fl = Some t \<Longrightarrow> documentType (options fl rc sf) = JStr t"
  "type fl = None \<Longrightarrow> optionalGet rc ''documentType'' = v \<Longrightarrow> v \<noteq> JUndefined \<Longrightarrow> v \<noteq> JNull
     \<Longrightarrow> documentType (options fl rc sf) = v"
  "type fl = None \<Longrightarrow> optionalGet rc ''documentType'' = JUndefined
     \<Longrightarrow> documentType (options fl rc sf) = JStr ''document''"
  by (simp_all add: options_def nullish_def flagValue_def)

lemma type_cliFlags: "type (cliFlags a) \<noteq> None"
  by (simp add: cliFlags_def withDefault_def split: option.splits)

text \<open>
  Claim C6. The claim gives the configuration file's \<open>documentType\<close> precedence over
  the default. The program does not: for the command line \<open>md-to-docx doc.md\<close>, which
  runs \<open>App\<close> and not the wizard, and a configuration \<open>{"documentType": "report"}\<close>,
  the type passed to the converter is \<open>"document"\<close>, because \<open>cli.flags.type\<close> already
  holds the declared default and \<open>??\<close> never reaches the configuration value.
\<close>

theorem documentType_config_shadowed:
  "\<not> shouldUseWizard (onlyInput ''doc.md'')
   \<and> documentType (options (cliFlags (onlyInput ''doc.md''))
        (JObj [(''documentType'', JStr ''report'')]) JUndefined) = JStr ''document''"
  by (simp add: options_def nullish_def flagValue_def cliFlags_def onlyInput_def withDefault_def
      shouldUseWizard_def truthy_bool_def)

section \<open>Properties of the wizard\<close>

text \<open>
  The two cancel handlers are navigation only: choosing Cancel in a list built by
  \<open>withNav\<close>, whatever the step's own selection does, and the \<open>c\<close>/\<open>q\<close> branch of
  \<open>useInput\<close> set the step to \<open>Welcome\<close> and leave the flags and the input path as they
  are.
\<close>

lemma cancel_handlers_keep_flags:
  "step (withNav onSelect (JStr ''__nav_cancel__'') s) = Welcome
   \<and> flags (withNav onSelect (JStr ''__nav_cancel__'') s) = flags s
   \<and> inputPath (withNav onSelect (JStr ''__nav_cancel__'') s) = inputPath s
   \<and> (\<not> escape key \<longrightarrow> toLowerCase input = ''c'' \<or> toLowerCase input = ''q'' \<longrightarrow>
        step (useInput input key s) = Welcome
        \<and> flags (useInput input key s) = flags s
        \<and> inputPath (useInput input key s) = inputPath s)"
  by (auto simp: withNav_def useInput_def)

lemma cancel_handlers_example:
  "align (flags (withNav (selectAt Align) (JStr ''CENTER'') midWizard)) = Some ''CENTER''"
  "step (withNav (selectAt Align) (JStr ''__nav_cancel__'') midWizard) = Welcome"
  "flags (withNav (selectAt Align) (JStr ''__nav_cancel__'') midWizard) = flags midWizard"
  by (simp_all add: withNav_def next_step_def asString_def midWizard_def)

text \<open>
  Away from the two text fields, the cancel keystroke as a whole changes the step only.
\<close>

lemma keyPress_cancel_without_text_field:
  assumes "step s \<noteq> Style" and "step s \<noteq> Output" and "\<not> escape key"
    and "toLowerCase input = ''c'' \<or> toLowerCase input = ''q''"
  shows "step (keyPress cursorOffset input key s) = Welcome
     \<and> flags (keyPress cursorOffset input key s) = flags s
     \<and> inputPath (keyPress cursorOffset input key s) = inputPath s"
  using assms cancel_handlers_keep_flags [of _ s key input]
  by (simp add: keyPress_def)

lemma toLowerCase_c: "toLowerCase ''c'' = ''c''"
  by code_simp

text \<open>
  Claim C9. Cancelling is meant to be navigation only, from every step. At the style
  step the program does not keep to it: the step has no Cancel item, and the cancel key
  \<open>c\<close> also reaches the text field, whose \<open>onChange\<close> records it. With the style path
  \<open>s.json\<close> typed in and the cursor at its end, pressing \<open>c\<close> sets the step to
  \<open>Welcome\<close> and changes the recorded style flag to \<open>s.jsonc\<close>.
\<close>

theorem cancel_key_edits_style_flag:
  "step styleWizard = Style
   \<and> style (flags styleWizard) = Some ''s.json''
   \<and> step (keyPress 6 ''c'' \<lparr>escape = False\<rparr> styleWizard) = Welcome
   \<and> style (flags (keyPress 6 ''c'' \<lparr>escape = False\<rparr> styleWizard)) = Some ''s.jsonc''
   \<and> flags (keyPress 6 ''c'' \<lparr>escape = False\<rparr> styleWizard) \<noteq> flags styleWizard"
proof -
  have a: "textInput 6 ''c'' (fieldValue (style (flags styleWizard))) onChangeStyle styleWizard
      = styleWizard\<lparr>flags := (flags styleWizard)\<lparr>style := Some ''s.jsonc''\<rparr>\<rparr>"
    by (simp add: textInput_def fieldValue_def styleWizard_def slice_def onChangeStyle_def)
  have b: "keyPress 6 ''c'' \<lparr>escape = False\<rparr> styleWizard
      = styleWizard\<lparr>flags := (flags styleWizard)\<lparr>style := Some ''s.jsonc''\<rparr>, step := Welcome\<rparr>"
    unfolding keyPress_def
    by (simp add: a useInput_def toLowerCase_c) (simp add: styleWizard_def)
  show ?thesis
    unfolding b by (simp add: styleWizard_def noFlags_def)
qed

section \<open>Properties of the conversion pipeline\<close>

lemma tryStat_setStatus [simp]: "tryStat (setStatus st w) p = tryStat w p"
  by (simp add: tryStat_def setStatus_def)

lemma readFile_setStatus [simp]: "readFile env (setStatus st w) p = readFile env w p"
  by (simp add: readFile_def setStatus_def)

lemma loadJsonIfExists_setStatus [simp]:
  "loadJsonIfExists env (setStatus st w) p = loadJsonIfExists env w p"
  by (simp add: loadJsonIfExists_def split: option.splits)

lemma outPath_setStatus [simp]: "outPath (setStatus st w) fl p = outPath w fl p"
  by (simp add: outPath_def Let_def split: option.splits)

lemma beforePersist_world:
  "\<exists>st. snd (beforePersist env fl inPath w) = w\<lparr>status := Some st\<rparr>"
  by (auto simp: beforePersist_def setStatus_def Let_def split: sum.splits)

lemma beforePersist_input_not_found:
  "\<not> isFile (tryStat w inPath) \<Longrightarrow>
     fst (beforePersist env fl inPath w)
       = Inl \<lparr>code = None, message = ''Input not found or not a file: '' @ inPath\<rparr>"
  by (simp add: beforePersist_def)

lemma beforePersist_read_error:
  "isFile (tryStat w inPath) \<Longrightarrow> readFile env w inPath = Inl e \<Longrightarrow>
     fst (beforePersist env fl inPath w) = Inl e"
  by (simp add: beforePersist_def)

lemma beforePersist_config_error:
  "isFile (tryStat w inPath) \<Longrightarrow> readFile env w inPath = Inr markdown \<Longrightarrow>
     loadJsonIfExists env w (Some ''.mdtodocxrc.json'') = Inl e \<Longrightarrow>
     fst (beforePersist env fl inPath w) = Inl e"
  by (simp add: beforePersist_def)

lemma beforePersist_style_error:
  "isFile (tryStat w inPath) \<Longrightarrow> readFile env w inPath = Inr markdown \<Longrightarrow>
     loadJsonIfExists env w (Some ''.mdtodocxrc.json'') = Inr rc \<Longrightarrow>
     loadJsonIfExists env w (style fl) = Inl e \<Longrightarrow>
     fst (beforePersist env fl inPath w) = Inl e"
  by (simp add: beforePersist_def)

lemma beforePersist_conversion_failed:
  "isFile (tryStat w inPath) \<Longrightarrow> readFile env w inPath = Inr markdown \<Longrightarrow>
     loadJsonIfExists env w (Some ''.mdtodocxrc.json'') = Inr rc \<Longrightarrow>
     loadJsonIfExists env w (style fl) = Inr sf \<Longrightarrow>
     convertMarkdownToDocx env (effectiveMarkdown fl markdown) (options fl rc sf) = Inl e \<Longrightarrow>
     fst (beforePersist env fl inPath w) = Inl e"
  by (simp add: beforePersist_def Let_def)

lemma convert_fatal:
  assumes "fst (beforePersist env fl inPath (w\<lparr>busy := True, error := None\<rparr>)) = Inl e"
  shows "\<exists>st. convert env fl inPath w
      = w\<lparr>status := Some st, error := Some (message e), busy := False\<rparr>"
proof -
  obtain st where st: "snd (beforePersist env fl inPath (w\<lparr>busy := True, error := None\<rparr>))
      = w\<lparr>busy := True, error := None, status := Some st\<rparr>"
    using beforePersist_world by blast
  from assms st have "beforePersist env fl inPath (w\<lparr>busy := True, error := None\<rparr>)
      = (Inl e, w\<lparr>busy := True, error := None, status := Some st\<rparr>)"
    by (simp add: prod_eq_iff)
  then have "convert env fl inPath w
      = w\<lparr>status := Some st, error := Some (message e), busy := False\<rparr>"
    by (simp add: convert_def convertBody_def)
  then show ?thesis by blast
qed

text \<open>
  Claim C7. When a phase before the write fails (the input is missing or not a file, the
  read fails, the configuration or style file cannot be read or parsed, the converter
  fails), \<open>convert\<close> leaves every file as it was, opens nothing and installs no
  watcher; it ends with the error set to the message of the failure and \<open>busy\<close> reset.
\<close>

theorem convert_fatal_writes_nothing:
  assumes "fst (beforePersist env fl inPath (w\<lparr>busy := True, error := None\<rparr>)) = Inl e"
  shows "files (convert env fl inPath w) = files w
     \<and> opened (convert env fl inPath w) = opened w
     \<and> fileWatcherRef (convert env fl inPath w) = fileWatcherRef w
     \<and> error (convert env fl inPath w) = Some (message e)
     \<and> \<not> busy (convert env fl inPath w)"
proof -
  from convert_fatal [OF assms] obtain st
    where "convert env fl inPath w
      = w\<lparr>status := Some st, error := Some (message e), busy := False\<rparr>"
    by blast
  then show ?thesis by simp
qed

lemma beforePersist_missing:
  "fst (beforePersist exampleEnv openAndWatch ''missing.md''
         (exampleWorld\<lparr>busy := True, error := None\<rparr>))
     = Inl \<lparr>code = None, message = ''Input not found or not a file: missing.md''\<rparr>"
  by (simp add: beforePersist_input_not_found tryStat_def exampleWorld_def)

lemma beforePersist_brokenConfig:
  "fst (beforePersist exampleEnv openAndWatch ''doc.md''
         (brokenConfigWorld\<lparr>busy := True, error := None\<rparr>))
     = Inl \<lparr>code = None,
            message = ''Failed to read or parse JSON: .mdtodocxrc.json'' @ [NL] @ ''Unexpected token''\<rparr>"
  by (simp add: beforePersist_def tryStat_def readFile_def loadJsonIfExists_def jsonFailure_def
      brokenConfigWorld_def exampleWorld_def exampleEnv_def setStatus_def)

theorem convert_fatal_writes_nothing_witness:
  "fst (beforePersist exampleEnv openAndWatch ''missing.md''
         (exampleWorld\<lparr>busy := True, error := None\<rparr>))
     = Inl \<lparr>code = None, message = ''Input not found or not a file: missing.md''\<rparr>
   \<and> files (convert exampleEnv openAndWatch ''missing.md'' exampleWorld) = files exampleWorld
   \<and> error (convert exampleEnv openAndWatch ''missing.md'' exampleWorld)
       = Some ''Input not found or not a file: missing.md''
   \<and> fst (beforePersist exampleEnv openAndWatch ''doc.md''
         (brokenConfigWorld\<lparr>busy := True, error := None\<rparr>))
     = Inl \<lparr>code = None,
            message = ''Failed to read or parse JSON: .mdtodocxrc.json'' @ [NL] @ ''Unexpected token''\<rparr>
   \<and> files (convert exampleEnv openAndWatch ''doc.md'' brokenConfigWorld) ''doc.docx'' = None
   \<and> opened (convert exampleEnv openAndWatch ''doc.md'' brokenConfigWorld) = []
   \<and> fileWatcherRef (convert exampleEnv openAndWatch ''doc.md'' brokenConfigWorld) = None"
proof -
  note a = convert_fatal_writes_nothing [OF beforePersist_missing]
  note b = convert_fatal_writes_nothing [OF beforePersist_brokenConfig]
  have c: "files brokenConfigWorld ''doc.docx'' = None" "opened brokenConfigWorld = []"
    "fileWatcherRef brokenConfigWorld = None"
    by (simp_all add: brokenConfigWorld_def exampleWorld_def)
  from a b c beforePersist_missing beforePersist_brokenConfig show ?thesis
    by simp
qed

lemma exampleEnv_outcomes:
  "writeFailure exampleEnv p = None"
  "openFailure exampleEnv p = Some \<lparr>code = Some ''ENOENT'', message = ''spawn xdg-open ENOENT''\<rparr>"
  "watchFailure exampleEnv p = None"
  by (simp_all add: exampleEnv_def)

lemma mergedRaw_plain:
  "align fl = None \<Longrightarrow> \<not> truthy_bool (rtl fl) \<Longrightarrow> mergedRaw fl JUndefined JUndefined = []"
  by (simp add: mergedRaw_def userWantsCustomStyle_def defaultNumericStyle_def orEmpty_def
      spread_def setAll_def truthy_str_def)

lemma options_plain:
  "align fl = None \<Longrightarrow> \<not> truthy_bool (rtl fl) \<Longrightarrow> type fl = None \<Longrightarrow>
     options fl JUndefined JUndefined = \<lparr>documentType = JStr ''document'', optStyle = None\<rparr>"
  by (simp add: options_def userWantsCustomStyle_def nullish_def flagValue_def truthy_str_def)

lemma outPath_doc: "outPath w openAndWatch ''doc.md'' = ''doc.docx''"
  by (simp add: outPath_def resolveOutputPath_def openAndWatch_def noFlags_def parse_doc
      join_examples)

lemma beforePersist_example:
  "beforePersist exampleEnv openAndWatch ''doc.md'' (exampleWorld\<lparr>busy := True, error := None\<rparr>)
     = (Inr (''docx of # Title'', ''doc.docx''),
        exampleWorld\<lparr>busy := True, error := None, status := Some Converting\<rparr>)"
proof -
  have fl: "align openAndWatch = None" "\<not> truthy_bool (rtl openAndWatch)"
    "type openAndWatch = None" "style openAndWatch = None" "\<not> truthy_bool (verbose openAndWatch)"
    "\<not> truthy_bool (toc openAndWatch)"
    by (simp_all add: openAndWatch_def noFlags_def truthy_bool_def)
  show ?thesis
    by (simp add: beforePersist_def tryStat_def readFile_def loadJsonIfExists_def
        jsonFailure_def exampleWorld_def exampleEnv_def setStatus_def options_plain fl
        effectiveMarkdown_def outPath_doc)
qed

text \<open>
  Claim C1, as amended. When the open flag is set, every phase through the write succeeds
  and the open action fails, the written artifact stays at the output path; the failure
  is caught by the handler of \<open>convert\<close> like any other exception: its message becomes the
  error of the invocation, the status stays at "Opening ...", nothing is recorded as
  opened, and the watcher is not installed.
\<close>

theorem open_failure_after_persist:
  assumes "truthy_bool (open fl)"
    and "beforePersist env fl inPath (w\<lparr>busy := True, error := None\<rparr>) = (Inr (blob, p), w')"
    and "writeFailure env p = None"
    and "openFailure env p = Some e"
  shows "files (convert env fl inPath w) = (files w)(p \<mapsto> File blob)
     \<and> error (convert env fl inPath w) = Some (message e)
     \<and> status (convert env fl inPath w) = Some (Opening p)
     \<and> opened (convert env fl inPath w) = opened w
     \<and> fileWatcherRef (convert env fl inPath w) = fileWatcherRef w
     \<and> \<not> busy (convert env fl inPath w)"
proof -
  obtain st where "snd (beforePersist env fl inPath (w\<lparr>busy := True, error := None\<rparr>))
      = w\<lparr>busy := True, error := None, status := Some st\<rparr>"
    using beforePersist_world by blast
  with assms(2) have w': "w' = w\<lparr>busy := True, error := None, status := Some st\<rparr>"
    by simp
  have "convert env fl inPath w
      = w\<lparr>files := (files w)(p \<mapsto> File blob), status := Some (Opening p),
          error := Some (message e), busy := False\<rparr>"
    using assms by (simp add: convert_def convertBody_def writeFile_def openPhase_def
        setStatus_def w')
  then show ?thesis by simp
qed

theorem open_failure_after_persist_witness:
  "truthy_bool (open openAndWatch)
   \<and> beforePersist exampleEnv openAndWatch ''doc.md'' (exampleWorld\<lparr>busy := True, error := None\<rparr>)
       = (Inr (''docx of # Title'', ''doc.docx''),
          exampleWorld\<lparr>busy := True, error := None, status := Some Converting\<rparr>)
   \<and> writeFailure exampleEnv ''doc.docx'' = None
   \<and> openFailure exampleEnv ''doc.docx''
       = Some \<lparr>code = Some ''ENOENT'', message = ''spawn xdg-open ENOENT''\<rparr>
   \<and> files (convert exampleEnv openAndWatch ''doc.md'' exampleWorld) ''doc.docx''
       = Some (File ''docx of # Title'')
   \<and> opened (convert exampleEnv openAndWatch ''doc.md'' exampleWorld) = []"
proof -
  have a: "truthy_bool (open openAndWatch)"
    by (simp add: openAndWatch_def truthy_bool_def)
  have b: "writeFailure exampleEnv ''doc.docx'' = None"
    by (simp add: exampleEnv_def)
  have c: "openFailure exampleEnv ''doc.docx''
      = Some \<lparr>code = Some ''ENOENT'', message = ''spawn xdg-open ENOENT''\<rparr>"
    by (simp add: exampleEnv_def)
  note d = open_failure_after_persist [OF a beforePersist_example b c]
  have e: "opened exampleWorld = []"
    by (simp add: exampleWorld_def)
  from a b c d e beforePersist_example show ?thesis
    by simp
qed

text \<open>
  The claim as stated fails: in the example every phase through the write succeeds and
  the open action fails; \<open>convert\<close> ends with the error set to the failure's message (the
  state that every fatal error sets), with the status left at "Opening ..." instead of
  "Done", and without the watcher that the flags ask for.
\<close>

theorem open_failure_sets_error:
  "truthy_bool (open openAndWatch) \<and> truthy_bool (watch openAndWatch)
   \<and> fst (beforePersist exampleEnv openAndWatch ''doc.md''
        (exampleWorld\<lparr>busy := True, error := None\<rparr>)) = Inr (''docx of # Title'', ''doc.docx'')
   \<and> writeFailure exampleEnv ''doc.docx'' = None
   \<and> watchFailure exampleEnv ''doc.md'' = None
   \<and> error (convert exampleEnv openAndWatch ''doc.md'' exampleWorld)
       = Some ''spawn xdg-open ENOENT''
   \<and> status (convert exampleEnv openAndWatch ''doc.md'' exampleWorld)
       = Some (Opening ''doc.docx'')
   \<and> fileWatcherRef (convert exampleEnv openAndWatch ''doc.md'' exampleWorld) = None"
proof -
  have fl: "truthy_bool (open openAndWatch)" "truthy_bool (watch openAndWatch)"
    "\<not> truthy_bool (verbose openAndWatch)"
    by (simp_all add: openAndWatch_def noFlags_def truthy_bool_def)
  have "convert exampleEnv openAndWatch ''doc.md'' exampleWorld
      = exampleWorld\<lparr>files := (files exampleWorld)(''doc.docx'' \<mapsto> File ''docx of # Title''),
          status := Some (Opening ''doc.docx''), error := Some ''spawn xdg-open ENOENT'',
          busy := False\<rparr>"
    by (simp add: convert_def convertBody_def beforePersist_example writeFile_def openPhase_def
        setStatus_def fl exampleEnv_outcomes)
  then have "error (convert exampleEnv openAndWatch ''doc.md'' exampleWorld)
        = Some ''spawn xdg-open ENOENT''"
    and "status (convert exampleEnv openAndWatch ''doc.md'' exampleWorld)
        = Some (Opening ''doc.docx'')"
    and "fileWatcherRef (convert exampleEnv openAndWatch ''doc.md'' exampleWorld) = None"
    by (simp_all add: exampleWorld_def)
  then show ?thesis
    using fl by (simp add: beforePersist_example exampleEnv_outcomes)
qed

section \<open>Properties of the debounce timer\<close>

lemma onChange_arms:
  assumes "atMostOnePending s"
  shows "armed (now s) (onChange s)" and "reconversions (onChange s) = reconversions s"
  using assms
  by (auto simp: atMostOnePending_def armed_def onChange_def clearTimeout_def setTimeout_def
      split: list.splits option.splits prod.splits)

lemma armed_atMostOnePending: "armed t s \<Longrightarrow> atMostOnePending s"
  by (auto simp: atMostOnePending_def armed_def split: list.splits prod.splits)

lemma atMostOnePending_advanceTo:
  "atMostOnePending s \<Longrightarrow> atMostOnePending (advanceTo t s)"
  by (auto simp: atMostOnePending_def advanceTo_def split: list.splits prod.splits)

lemma atMostOnePending_notify:
  assumes "atMostOnePending s"
  shows "atMostOnePending (notify t s)"
proof -
  from assms have "atMostOnePending (advanceTo t s)"
    by (rule atMostOnePending_advanceTo)
  then have "armed (now (advanceTo t s)) (onChange (advanceTo t s))"
    by (rule onChange_arms(1))
  then show ?thesis
    unfolding notify_def by (rule armed_atMostOnePending)
qed

lemma atMostOnePending_notifications:
  "atMostOnePending s \<Longrightarrow> atMostOnePending (notifications ts s)"
  by (induction ts arbitrary: s) (simp_all add: atMostOnePending_notify)

lemma atMostOnePending_length: "atMostOnePending s \<Longrightarrow> length (timers s) \<le> 1"
  by (auto simp: atMostOnePending_def split: list.splits)

lemma atMostOnePending_idle: "atMostOnePending (idle t)"
  by (simp add: atMostOnePending_def idle_def)

lemma advanceTo_armed:
  assumes "armed t s" and "t \<le> u" and "u < t + 200"
  shows "atMostOnePending (advanceTo u s)" and "now (advanceTo u s) = u"
    and "reconversions (advanceTo u s) = reconversions s"
  using assms
  by (auto simp: armed_def atMostOnePending_def advanceTo_def split: list.splits prod.splits)

lemma notify_armed:
  assumes "armed t s" and "t \<le> u" and "u < t + 200"
  shows "armed u (notify u s)" and "reconversions (notify u s) = reconversions s"
proof -
  note adv = advanceTo_armed [OF assms]
  from onChange_arms(1) [OF adv(1)] adv(2) show "armed u (notify u s)"
    by (simp add: notify_def)
  from onChange_arms(2) [OF adv(1)] adv(3) show "reconversions (notify u s) = reconversions s"
    by (simp add: notify_def)
qed

lemma burst_armed:
  "armed t s \<Longrightarrow> burst t us \<Longrightarrow>
     armed (last (t # us)) (notifications us s)
     \<and> reconversions (notifications us s) = reconversions s"
proof (induction us arbitrary: t s)
  case Nil
  then show ?case by simp
next
  case (Cons u us)
  from Cons.prems have b: "t \<le> u" "u < t + 200" "burst u us"
    by simp_all
  note step = notify_armed [OF Cons.prems(1) b(1,2)]
  from Cons.IH [OF step(1) b(3)] step(2) show ?case
    by simp
qed

lemma notify_idle:
  assumes "t0 \<le> t"
  shows "armed t (notify t (idle t0))" and "reconversions (notify t (idle t0)) = []"
proof -
  have a: "atMostOnePending (advanceTo t (idle t0))"
    by (rule atMostOnePending_advanceTo) (rule atMostOnePending_idle)
  have b: "now (advanceTo t (idle t0)) = t" "reconversions (advanceTo t (idle t0)) = []"
    using assms by (simp_all add: advanceTo_def idle_def)
  from onChange_arms(1) [OF a] b(1) show "armed t (notify t (idle t0))"
    by (simp add: notify_def)
  from onChange_arms(2) [OF a] b(2) show "reconversions (notify t (idle t0)) = []"
    by (simp add: notify_def)
qed

lemma settle_armed:
  "armed t s \<Longrightarrow> reconversions (settle s) = reconversions s @ [t + 200] \<and> timers (settle s) = []"
  by (auto simp: armed_def settle_def advanceTo_def split: list.splits prod.splits)

text \<open>
  Claim C8. For a burst of change notifications, each arriving less than 200 ms after the
  one before it, no reconversion starts while the burst lasts, and exactly one starts
  afterwards, 200 ms after the last notification. After every notification at most one
  timer is pending: the listener clears the timer it set before.
\<close>

theorem debounce_coalesces_burst:
  assumes "t0 \<le> t" and "burst t us"
  shows "reconversions (notifications (t # us) (idle t0)) = []
     \<and> reconversions (settle (notifications (t # us) (idle t0))) = [last (t # us) + 200]
     \<and> timers (settle (notifications (t # us) (idle t0))) = []
     \<and> (\<forall>k. length (timers (notifications (take k (t # us)) (idle t0))) \<le> 1)"
proof -
  note first = notify_idle [OF assms(1)]
  from burst_armed [OF first(1) assms(2)] first(2)
  have a: "armed (last (t # us)) (notifications (t # us) (idle t0))"
    and b: "reconversions (notifications (t # us) (idle t0)) = []"
    by simp_all
  from settle_armed [OF a] b
  have c: "reconversions (settle (notifications (t # us) (idle t0))) = [last (t # us) + 200]"
    and d: "timers (settle (notifications (t # us) (idle t0))) = []"
    by simp_all
  have e: "length (timers (notifications (take k (t # us)) (idle t0))) \<le> 1" for k
    by (intro atMostOnePending_length atMostOnePending_notifications atMostOnePending_idle)
  from b c d e show ?thesis
    by blast
qed

theorem debounce_coalesces_burst_witness:
  "(0::nat) \<le> 1000 \<and> burst 1000 [1010, 1020, 1030, 1040]
   \<and> reconversions (notifications [1000, 1010, 1020, 1030, 1040] (idle 0)) = []
   \<and> reconversions (settle (notifications [1000, 1010, 1020, 1030, 1040] (idle 0))) = [1240]"
proof -
  have a: "(0::nat) \<le> 1000"
    by simp
  have b: "burst 1000 [1010, 1020, 1030, 1040]"
    by simp
  from debounce_coalesces_burst [OF a b] a b show ?thesis
    by simp
qed

section \<open>The scenarios of the specification\<close>

text \<open>
  With \<open>{toc: true, type: "report"}\<close>, no configuration and no style file, the text
  \<open># Title\n\nBody\<close> of \<open>doc.md\<close> gets the marker prefix, the options are the type
  \<open>report\<close> with no style, and the output goes to \<open>doc.docx\<close>.
\<close>

lemma scenario_toc_report_markdown:
  "effectiveMarkdown tocReport (''# Title'' @ [NL, NL] @ ''Body'')
     = NL # ''[TOC]'' @ [NL, NL] @ ''# Title'' @ [NL, NL] @ ''Body''"
  by (simp add: effectiveMarkdown_def tocReport_def noFlags_def truthy_bool_def tocPrefix_def
      NL_def)

lemma scenario_toc_report_options:
  "options tocReport JUndefined JUndefined = \<lparr>documentType = JStr ''report'', optStyle = None\<rparr>"
  by (simp add: options_def tocReport_def noFlags_def userWantsCustomStyle_def nullish_def
      flagValue_def truthy_str_def truthy_bool_def)

lemma scenario_toc_report_outPath: "outPath w tocReport ''doc.md'' = ''doc.docx''"
  by (simp add: outPath_def resolveOutputPath_def tocReport_def noFlags_def parse_doc
      join_examples)

text \<open>
  With \<open>{align: "CENTER"}\<close> and no other style source, the merged style is the full set
  of numeric defaults and \<open>paragraphAlignment: "CENTER"\<close>, and the sanitizer keeps all of
  it.
\<close>

lemma scenario_align_center_merged:
  "mergedRaw alignCenter JUndefined JUndefined
     = defaultNumericStyle True @ [(''paragraphAlignment'', JStr ''CENTER'')]"
  by (simp add: mergedRaw_def alignCenter_def noFlags_def userWantsCustomStyle_def
      truthy_str_def truthy_bool_def defaultNumericStyle_def orEmpty_def spread_def setAll_def)

lemma scenario_align_center_sanitized:
  "sanitizedStyle (mergedRaw alignCenter JUndefined JUndefined)
     = defaultNumericStyle True @ [(''paragraphAlignment'', JStr ''CENTER'')]"
  by (simp add: scenario_align_center_merged)
    (simp add: defaultNumericStyle_def sanitizedStyle_def sanitizedStyleEntries_def
      fromEntries_def setAll_def style_key_simps num_def)

end
